theory Spec2Isabelle
  imports Main "HOL-Library.Multiset" "HOL-Library.List_Lexorder" "HOL-Library.Product_Lexorder"
begin

section \<open>JavaScript values used by the handlers\<close>

text \<open>
  Strings are byte lists (UTF-8). A value that may be \<open>null\<close> or \<open>undefined\<close> is an
  \<open>option\<close>. JavaScript treats \<open>null\<close>, \<open>undefined\<close> and the empty string as falsy;
  every other string is truthy.
\<close>

definition truthy :: "string option \<Rightarrow> bool" where
  "truthy v = (case v of None \<Rightarrow> False | Some s \<Rightarrow> s \<noteq> [])"

text \<open>\<open>a || b\<close> on possibly absent strings.\<close>

definition js_or :: "string option \<Rightarrow> string option \<Rightarrow> string option" where
  "js_or a b = (if truthy a then a else b)"

text \<open>\<open>a || 'literal'\<close>: the result is always a string.\<close>

definition js_or_default :: "string option \<Rightarrow> string \<Rightarrow> string" where
  "js_or_default a d = (case a of None \<Rightarrow> d | Some s \<Rightarrow> if s = [] then d else s)"

text \<open>Decimal rendering of a non-negative integer, as a template literal prints it.\<close>

definition digit_char :: "nat \<Rightarrow> char" where
  "digit_char d = ''0123456789'' ! d"

function dec :: "nat \<Rightarrow> string" where
  "dec n = (if n < 10 then [digit_char n] else dec (n div 10) @ [digit_char (n mod 10)])"
  by pat_completeness auto
termination
  by (relation "measure (\<lambda>n. n)") auto

declare dec.simps [simp del]

datatype json =
    JNull
  | JNum nat
  | JStr string
  | JArr "json list"
  | JObj "(string \<times> json) list"

text \<open>A property whose value is \<open>undefined\<close> is left out by \<open>res.json\<close>.\<close>

definition opt_field :: "string \<Rightarrow> string option \<Rightarrow> (string \<times> json) list" where
  "opt_field k v = (case v of None \<Rightarrow> [] | Some s \<Rightarrow> [(k, JStr s)])"

definition nullable :: "string option \<Rightarrow> json" where
  "nullable v = (case v of None \<Rightarrow> JNull | Some s \<Rightarrow> JStr s)"

record response =
  status_code :: nat
  body :: json

text \<open>\<open>res.status(c).json({ error: m })\<close> and \<open>res.json(obj)\<close>.\<close>

definition error_response :: "nat \<Rightarrow> string \<Rightarrow> response" where
  "error_response c m = \<lparr>status_code = c, body = JObj [(''error'', JStr m)]\<rparr>"

definition ok_response :: "(string \<times> json) list \<Rightarrow> response" where
  "ok_response members = \<lparr>status_code = 200, body = JObj members\<rparr>"

section \<open>Process environment and collaborators\<close>

record env =
  DATABASE_URL :: "string option"
  SUPABASE_URL :: "string option"
  SUPABASE_BUCKET :: "string option"
  FIREBASE_STORAGE_BUCKET :: "string option"
  FIREBASE_SERVICE_ACCOUNT :: "string option"
  FIREBASE_SERVICE_ACCOUNT_PATH :: "string option"

datatype supabase_client = SupabaseClient
datatype pg_pool = Pool string

text \<open>
  \<open>require('./supabase')\<close> is not among the sources; the handlers only test the exported
  value for being \<open>null\<close>, so it is a parameter. \<open>collation_key\<close> is the sort key the
  database's collation gives a text value (\<open>ORDER BY filename\<close> compares these keys).
\<close>

record config =
  environment :: env
  supabase :: "supabase_client option"
  collation_key :: "string \<Rightarrow> nat list"

text \<open>\<open>let pool = null; if (process.env.DATABASE_URL) pool = new Pool(...)\<close>\<close>

definition pool :: "config \<Rightarrow> pg_pool option" where
  "pool cfg =
     (if truthy (DATABASE_URL (environment cfg))
      then Some (Pool (the (DATABASE_URL (environment cfg))))
      else None)"

section \<open>The documents table\<close>

record document =
  doc_id :: string
  project_id :: string
  filename :: "string option"
  file_path :: "string option"
  source :: "string option"
  status :: "string option"
  document_content :: "string option"
  created_at :: string

definition json_of_document :: "document \<Rightarrow> json" where
  "json_of_document d = JObj
     [(''id'', JStr (doc_id d)), (''project_id'', JStr (project_id d)),
      (''filename'', nullable (filename d)), (''file_path'', nullable (file_path d)),
      (''source'', nullable (source d)), (''status'', nullable (status d)),
      (''document_content'', nullable (document_content d)),
      (''created_at'', JStr (created_at d))]"

section \<open>Outcomes of the external calls of one request\<close>

text \<open>An awaited promise either rejects (the \<open>await\<close> throws) or resolves to a value.\<close>

datatype 'a awaited = Threw string | Returned 'a

datatype stream_event = StreamError string | StreamFinish

datatype signed_data = SignedData (signedUrl: "string option")

record signed_reply =
  data :: "signed_data option"
  error :: "string option"

text \<open>
  Everything a request reads from outside the process: the clock, the random id, and how
  each external call answers. \<open>parse_service_account\<close> and \<open>require_service_account\<close>
  give \<open>None\<close> when the source's \<open>try\<close> block throws or yields a falsy value;
  \<open>admin_initialize\<close> gives \<open>Some m\<close> when \<open>admin.initializeApp\<close> or
  \<open>admin.storage().bucket()\<close> throws.
\<close>

record world =
  date_now :: nat
  date_now_sign :: nat
  uuidv4 :: string
  parse_service_account :: "string \<Rightarrow> string option"
  require_service_account :: "string \<Rightarrow> string option"
  admin_initialize :: "string \<Rightarrow> string \<Rightarrow> string option"
  fb_stream :: stream_event
  fb_getSignedUrl :: "string awaited"
  sb_upload :: "string option awaited"
  sb_createSignedUrl :: "signed_reply awaited"
  pool_query_error :: "string option"
  store_clock :: string

datatype sql_statement =
    InsertDocument
  | SelectUploadOrOther
  | SelectScraped
  | SelectById
  | SelectSummary

text \<open>The calls a handler issues to the storage backends and to the database, in order.\<close>

datatype call =
    FbWrite string string string string
  | FbGetSignedUrl string string nat
  | SbUpload string string string string bool
  | SbCreateSignedUrl string string nat
  | PoolQuery sql_statement "string option list"

section \<open>The Firebase module\<close>

datatype bucket_handle = Bucket string

record firebase_module =
  initialized :: bool
  bucket :: "bucket_handle option"

record server_state =
  firebase :: firebase_module
  documents :: "document list"
  fb_objects :: "(string \<times> string \<times> string) list"
  sb_objects :: "(string \<times> string \<times> string) list"

text \<open>
  \<open>initIfPossible\<close>: the first component is the exception that escapes, if any.
\<close>

definition initIfPossible :: "env \<Rightarrow> world \<Rightarrow> firebase_module \<Rightarrow> string option \<times> firebase_module" where
  "initIfPossible e w m =
     (if initialized m then (None, m)
      else
        let serviceAccount =
              (if truthy (FIREBASE_SERVICE_ACCOUNT e)
               then parse_service_account w (the (FIREBASE_SERVICE_ACCOUNT e))
               else if truthy (FIREBASE_SERVICE_ACCOUNT_PATH e)
               then require_service_account w (the (FIREBASE_SERVICE_ACCOUNT_PATH e))
               else None)
        in case serviceAccount of
             None \<Rightarrow> (None, m\<lparr>initialized := False\<rparr>)
           | Some sa \<Rightarrow>
               let storageBucket = js_or_default (FIREBASE_STORAGE_BUCKET e) ''policy-file''
               in case admin_initialize w sa storageBucket of
                    Some err \<Rightarrow> (Some err, m)
                  | None \<Rightarrow> (None, m\<lparr>bucket := Some (Bucket storageBucket), initialized := True\<rparr>))"

definition not_initialized_message :: string where
  "not_initialized_message =
     ''Firebase Storage not initialized. Set FIREBASE_SERVICE_ACCOUNT or FIREBASE_SERVICE_ACCOUNT_PATH.''"

definition getBucket :: "env \<Rightarrow> world \<Rightarrow> firebase_module \<Rightarrow> (string + bucket_handle) \<times> firebase_module" where
  "getBucket e w m =
     (case initIfPossible e w m of
        (Some err, m') \<Rightarrow> (Inl err, m')
      | (None, m') \<Rightarrow>
          (case bucket m' of
             None \<Rightarrow> (Inl not_initialized_message, m')
           | Some b \<Rightarrow> (Inr b, m')))"

section \<open>POST /upload\<close>

record upload_file =
  originalname :: string
  mimetype :: string
  buffer :: string

record upload_request =
  req_file :: "upload_file option"
  body_project_id :: "string option"
  body_projectId :: "string option"

type_synonym outcome = "response \<times> call list \<times> server_state"

text \<open>
  \<open>INSERT INTO documents (...) VALUES ($1,...,$7) RETURNING *\<close>: the store sets
  \<open>created_at\<close>, appends the row and returns it.
\<close>

definition insert_document :: "string \<Rightarrow> document \<Rightarrow> document list \<Rightarrow> document list \<times> document list" where
  "insert_document clock d tbl =
     (let stored = d\<lparr>created_at := clock\<rparr> in (tbl @ [stored], [stored]))"

text \<open>
  The branch after the Firebase bucket was obtained: the write stream and its two events.
  \<open>bucket.file\<close>, \<open>createWriteStream\<close>, \<open>stream.on\<close> and \<open>stream.end\<close> report
  failures through the stream's \<open>error\<close> event; they are taken not to throw.
\<close>

definition firebase_branch :: "world \<Rightarrow> server_state \<Rightarrow> upload_file \<Rightarrow> string \<Rightarrow> bucket_handle \<Rightarrow> outcome" where
  "firebase_branch w s f dest b =
     (case b of Bucket bname \<Rightarrow>
        let wr = FbWrite bname dest (mimetype f) (buffer f) in
        case fb_stream w of
          StreamError err \<Rightarrow> (error_response 500 err, [wr], s)
        | StreamFinish \<Rightarrow>
            let s' = s\<lparr>fb_objects := fb_objects s @ [(bname, dest, buffer f)]\<rparr>;
                sg = FbGetSignedUrl bname dest (date_now_sign w + 60 * 60 * 1000)
            in case fb_getSignedUrl w of
                 Threw err \<Rightarrow> (error_response 500 err, [wr, sg], s')
               | Returned url \<Rightarrow>
                   (ok_response [(''name'', JStr dest), (''url'', JStr url)], [wr, sg], s'))"

text \<open>
  The \<open>catch (fbErr)\<close> branch once \<open>supabase\<close> is known to be non-null. A rejected
  \<open>await\<close> is caught by \<open>catch (sbErr)\<close>; inside the inner \<open>try\<close>, a rejected query and
  the \<open>TypeError\<close> of reading \<open>rows[0].id\<close> or \<open>signedData.signedUrl\<close> from a missing
  value are caught by \<open>catch (dbErr)\<close>.
\<close>

definition supabase_branch :: "config \<Rightarrow> world \<Rightarrow> server_state \<Rightarrow> upload_request \<Rightarrow> upload_file \<Rightarrow> string \<Rightarrow> outcome" where
  "supabase_branch cfg w s req f dest =
     (if \<not> truthy (SUPABASE_BUCKET (environment cfg))
      then (error_response 500 ''SUPABASE_BUCKET not configured'', [], s)
      else
        let bucketName = the (SUPABASE_BUCKET (environment cfg));
            path = dest;
            up = SbUpload bucketName path (buffer f) (mimetype f) False
        in case sb_upload w of
             Threw m \<Rightarrow> (error_response 500 m, [up], s)
           | Returned (Some upErr) \<Rightarrow> (error_response 500 upErr, [up], s)
           | Returned None \<Rightarrow>
               let s1 = s\<lparr>sb_objects := sb_objects s @ [(bucketName, path, buffer f)]\<rparr>;
                   sg = SbCreateSignedUrl bucketName path (60 * 60)
               in case sb_createSignedUrl w of
                    Threw m \<Rightarrow> (error_response 500 m, [up, sg], s1)
                  | Returned r \<Rightarrow>
                      (case error r of
                         Some signedErr \<Rightarrow> (error_response 500 signedErr, [up, sg], s1)
                       | None \<Rightarrow>
                           let projectId = js_or (body_project_id req) (body_projectId req) in
                           if \<not> truthy projectId
                           then (error_response 400 ''project_id is required'', [up, sg], s1)
                           else if pool cfg = None
                           then (error_response 500 ''DATABASE_URL not configured'', [up, sg], s1)
                           else
                             let row = \<lparr>doc_id = uuidv4 w, project_id = the projectId,
                                        filename = Some (originalname f), file_path = Some path,
                                        source = Some ''Upload'', status = Some ''pending'',
                                        document_content = None, created_at = []\<rparr>;
                                 q = PoolQuery InsertDocument
                                       [Some (uuidv4 w), projectId, Some (originalname f), Some path,
                                        Some ''Upload'', Some ''pending'', None]
                             in case pool_query_error w of
                                  Some dbErr \<Rightarrow> (error_response 500 dbErr, [up, sg, q], s1)
                                | None \<Rightarrow>
                                    (case insert_document (store_clock w) row (documents s1) of
                                       (tbl, rows) \<Rightarrow>
                                         let s2 = s1\<lparr>documents := tbl\<rparr> in
                                         (case rows of
                                            [] \<Rightarrow>
                                              (error_response 500
                                                 ''Cannot read properties of undefined (reading 'id')'',
                                               [up, sg, q], s2)
                                          | row0 # _ \<Rightarrow>
                                              (case data r of
                                                 None \<Rightarrow>
                                                   (error_response 500
                                                      ''Cannot read properties of null (reading 'signedUrl')'',
                                                    [up, sg, q], s2)
                                               | Some sd \<Rightarrow>
                                                   (ok_response
                                                      ([(''document_id'', JStr (doc_id row0)),
                                                        (''message'', JStr ''upload successfully''),
                                                        (''name'', JStr path)]
                                                       @ opt_field ''url'' (signedUrl sd)),
                                                    [up, sg, q], s2))))))"

definition upload_handler :: "config \<Rightarrow> world \<Rightarrow> server_state \<Rightarrow> upload_request \<Rightarrow> outcome" where
  "upload_handler cfg w s req =
     (case req_file req of
        None \<Rightarrow> (error_response 400 ''No file uploaded'', [], s)
      | Some f \<Rightarrow>
          let originalName = originalname f;
              timestamp = date_now w;
              dest = dec timestamp @ ''_'' @ originalName
          in case getBucket (environment cfg) w (firebase s) of
               (Inr b, m) \<Rightarrow> firebase_branch w (s\<lparr>firebase := m\<rparr>) f dest b
             | (Inl fbErr, m) \<Rightarrow>
                 (case supabase cfg of
                    None \<Rightarrow> (error_response 500 fbErr, [], s\<lparr>firebase := m\<rparr>)
                  | Some _ \<Rightarrow> supabase_branch cfg w (s\<lparr>firebase := m\<rparr>) req f dest))"

section \<open>Text functions of the database and of JavaScript\<close>

text \<open>
  \<open>lower(...)\<close> in SQL and \<open>toLowerCase()\<close> in JavaScript, on the ASCII letters. The
  handlers compare the result only with the literals \<open>upload\<close>, \<open>other\<close>, \<open>scrape\<close>,
  \<open>processed\<close>, \<open>analysed\<close> and \<open>analyzed\<close>, whose letters no character outside ASCII
  lower-cases to.
\<close>

definition lower_char :: "char \<Rightarrow> char" where
  "lower_char c =
     (case map_of (zip ''ABCDEFGHIJKLMNOPQRSTUVWXYZ'' ''abcdefghijklmnopqrstuvwxyz'') c of
        Some l \<Rightarrow> l
      | None \<Rightarrow> c)"

definition lower :: "string \<Rightarrow> string" where
  "lower s = map lower_char s"

text \<open>\<open>s.replace(/^\/+/, '')\<close> and \<open>s.replace(/\/$/, '')\<close>.\<close>

definition strip_leading_slashes :: "string \<Rightarrow> string" where
  "strip_leading_slashes s = dropWhile (\<lambda>c. c = CHR ''/'') s"

definition strip_trailing_slash :: "string \<Rightarrow> string" where
  "strip_trailing_slash s = (if s \<noteq> [] \<and> last s = CHR ''/'' then butlast s else s)"

text \<open>
  \<open>encodeURIComponent\<close> on UTF-8 bytes: the unreserved characters stay, every other byte
  becomes \<open>%\<close> and two upper-case hexadecimal digits.
\<close>

definition unreserved :: "char \<Rightarrow> bool" where
  "unreserved c =
     (c \<in> set (''ABCDEFGHIJKLMNOPQRSTUVWXYZabcdefghijklmnopqrstuvwxyz0123456789-_.!~*()''
               @ [CHR 0x27]))"

definition hex_digit :: "nat \<Rightarrow> char" where
  "hex_digit n = ''0123456789ABCDEF'' ! (n mod 16)"

definition percent_encode :: "char \<Rightarrow> string" where
  "percent_encode c =
     (if unreserved c then [c]
      else [CHR ''%'', hex_digit ((of_char c :: nat) div 16), hex_digit ((of_char c :: nat) mod 16)])"

definition encodeURIComponent :: "string \<Rightarrow> string" where
  "encodeURIComponent s = concat (map percent_encode s)"

section \<open>The queries of documents.js\<close>

text \<open>
  \<open>ORDER BY filename\<close>: ascending in the collation's sort key, \<open>NULL\<close> last. Rows with
  equal keys keep their table order (SQL leaves their order open).
\<close>

definition filename_key :: "config \<Rightarrow> document \<Rightarrow> bool \<times> nat list" where
  "filename_key cfg d =
     (case filename d of None \<Rightarrow> (True, []) | Some f \<Rightarrow> (False, collation_key cfg f))"

text \<open>\<open>lower(source) IN (...)\<close> is not true on a \<open>NULL\<close> source.\<close>

definition source_in :: "string list \<Rightarrow> document \<Rightarrow> bool" where
  "source_in names d = (case source d of None \<Rightarrow> False | Some s \<Rightarrow> lower s \<in> set names)"

text \<open>
  \<open>SELECT * FROM documents WHERE project_id = $1 AND lower(source) IN ('upload','other')
  ORDER BY filename\<close>
\<close>

definition select_upload_or_other :: "config \<Rightarrow> string \<Rightarrow> document list \<Rightarrow> document list" where
  "select_upload_or_other cfg projectId tbl =
     sort_key (filename_key cfg)
       (filter (\<lambda>d. project_id d = projectId \<and> source_in [''upload'', ''other''] d) tbl)"

text \<open>
  \<open>SELECT id, filename AS file_name, created_at, status FROM documents
  WHERE project_id = $1 AND lower(source) = 'scrape' ORDER BY filename\<close>:
  the rows selected, and the columns each is projected to.
\<close>

definition select_scraped :: "config \<Rightarrow> string \<Rightarrow> document list \<Rightarrow> document list" where
  "select_scraped cfg projectId tbl =
     sort_key (filename_key cfg)
       (filter (\<lambda>d. project_id d = projectId \<and> source_in [''scrape''] d) tbl)"

definition scraped_columns :: "document \<Rightarrow> json" where
  "scraped_columns d = JObj
     [(''id'', JStr (doc_id d)), (''file_name'', nullable (filename d)),
      (''created_at'', JStr (created_at d)), (''status'', nullable (status d))]"

text \<open>\<open>SELECT * FROM documents WHERE id = $1\<close>\<close>

definition select_by_id :: "string \<Rightarrow> document list \<Rightarrow> document list" where
  "select_by_id i tbl = filter (\<lambda>d. doc_id d = i) tbl"

record summary_row =
  row_source :: "string option"
  row_status :: "string option"
  row_count :: nat

text \<open>
  \<open>SELECT source, status, COUNT(*)::int AS count FROM documents WHERE project_id = $1
  GROUP BY source, status\<close>: one row for each distinct pair (SQL leaves their order open).
\<close>

definition select_summary :: "string \<Rightarrow> document list \<Rightarrow> summary_row list" where
  "select_summary projectId tbl =
     (let ds = filter (\<lambda>d. project_id d = projectId) tbl
      in map (\<lambda>(so, st).
                \<lparr>row_source = so, row_status = st,
                 row_count = length (filter (\<lambda>d. source d = so \<and> status d = st) ds)\<rparr>)
             (remdups (map (\<lambda>d. (source d, status d)) ds)))"

section \<open>The listing handlers\<close>

type_synonym reply = "response \<times> call list"

definition upload_or_other_handler :: "config \<Rightarrow> world \<Rightarrow> server_state \<Rightarrow> string \<Rightarrow> reply" where
  "upload_or_other_handler cfg w s projectId =
     (if projectId = [] then (error_response 400 ''project_id is required'', [])
      else if pool cfg = None then (error_response 500 ''DATABASE_URL not configured'', [])
      else
        let q = PoolQuery SelectUploadOrOther [Some projectId] in
        case pool_query_error w of
          Some err \<Rightarrow> (error_response 500 err, [q])
        | None \<Rightarrow>
            let rows = select_upload_or_other cfg projectId (documents s)
            in (ok_response [(''documents'', JArr (map json_of_document rows))], [q]))"

definition scraped_handler :: "config \<Rightarrow> world \<Rightarrow> server_state \<Rightarrow> string \<Rightarrow> reply" where
  "scraped_handler cfg w s projectId =
     (if projectId = [] then (error_response 400 ''project_id is required'', [])
      else if pool cfg = None then (error_response 500 ''DATABASE_URL not configured'', [])
      else
        let q = PoolQuery SelectScraped [Some projectId] in
        case pool_query_error w of
          Some err \<Rightarrow> (error_response 500 err, [q])
        | None \<Rightarrow>
            let rows = select_scraped cfg projectId (documents s)
            in (ok_response [(''documents'', JArr (map scraped_columns rows))], [q]))"

section \<open>GET /documents/scrape/:document_id\<close>

definition supabase_public_url :: "string \<Rightarrow> string \<Rightarrow> string \<Rightarrow> string" where
  "supabase_public_url supabaseUrl bucketName normalized =
     strip_trailing_slash supabaseUrl @ ''/storage/v1/object/public/'' @ bucketName @ ''/''
       @ encodeURIComponent normalized"

definition firebase_media_url :: "string \<Rightarrow> string \<Rightarrow> string" where
  "firebase_media_url fbBucket normalized =
     ''https://firebasestorage.googleapis.com/v0/b/'' @ fbBucket @ ''/o/''
       @ encodeURIComponent normalized @ ''?alt=media''"

text \<open>\<open>!signedErr && signedData && signedData.signedUrl\<close>\<close>

definition signed_url_of :: "signed_reply \<Rightarrow> string option" where
  "signed_url_of r =
     (case error r of
        Some _ \<Rightarrow> None
      | None \<Rightarrow>
          (case data r of
             None \<Rightarrow> None
           | Some sd \<Rightarrow> if truthy (signedUrl sd) then signedUrl sd else None))"

text \<open>The part of the handler that runs once the row has been read.\<close>

definition preview_of_document :: "config \<Rightarrow> world \<Rightarrow> document \<Rightarrow> reply" where
  "preview_of_document cfg w doc =
     (let fname = js_or_default (filename doc) [] in
      if fname = []
      then (error_response 500 ''Document filename not found in database'', [])
      else
        let supabaseUrl = SUPABASE_URL (environment cfg);
            bucketName = SUPABASE_BUCKET (environment cfg)
        in if supabase cfg \<noteq> None \<and> truthy supabaseUrl \<and> truthy bucketName
           then
             let normalized = strip_leading_slashes fname;
                 sg = SbCreateSignedUrl (the bucketName) normalized 3600
             in case sb_createSignedUrl w of
                  Threw m \<Rightarrow> (error_response 500 (''Failed to generate preview URL: '' @ m), [sg])
                | Returned r \<Rightarrow>
                    (case signed_url_of r of
                       Some u \<Rightarrow> (ok_response [(''preview_url'', JStr u)], [sg])
                     | None \<Rightarrow>
                         (ok_response
                            [(''preview_url'',
                              JStr (supabase_public_url (the supabaseUrl) (the bucketName) normalized))],
                          [sg]))
           else
             let fbBucket = FIREBASE_STORAGE_BUCKET (environment cfg) in
             if truthy fbBucket
             then
               let normalized = strip_leading_slashes fname
               in (ok_response [(''preview_url'', JStr (firebase_media_url (the fbBucket) normalized))], [])
             else (error_response 500 ''Storage not configured for preview URL generation'', []))"

definition preview_handler :: "config \<Rightarrow> world \<Rightarrow> server_state \<Rightarrow> string \<Rightarrow> reply" where
  "preview_handler cfg w s i =
     (if i = [] then (error_response 400 ''document_id is required'', [])
      else if pool cfg = None then (error_response 500 ''DATABASE_URL not configured'', [])
      else
        let q = PoolQuery SelectById [Some i] in
        case pool_query_error w of
          Some err \<Rightarrow> (error_response 500 err, [q])
        | None \<Rightarrow>
            (case select_by_id i (documents s) of
               [] \<Rightarrow> (error_response 404 ''document not found'', [q])
             | doc # _ \<Rightarrow>
                 (case preview_of_document cfg w doc of (r, cs) \<Rightarrow> (r, q # cs))))"

section \<open>GET /documents/project/:project_id/summary\<close>

text \<open>
  \<open>summary\<close> and each \<open>status\<close> member are plain objects (\<open>{}\<close>) indexed by a label
  taken from the row, so a lookup that finds no own property continues in
  \<open>Object.prototype\<close>. These are its property names.
\<close>

definition object_prototype_names :: "string list" where
  "object_prototype_names =
     [''constructor'', ''__defineGetter__'', ''__defineSetter__'', ''hasOwnProperty'',
      ''__lookupGetter__'', ''__lookupSetter__'', ''isPrototypeOf'', ''propertyIsEnumerable'',
      ''toString'', ''valueOf'', ''__proto__'', ''toLocaleString'']"

text \<open>
  What \<open>+\<close> turns an inherited member into: \<open>__proto__\<close> reads \<open>Object.prototype\<close>
  itself, \<open>constructor\<close> the function \<open>Object\<close>, the others the method of that name.
\<close>

definition inherited_text :: "string \<Rightarrow> string" where
  "inherited_text k =
     (if k = ''__proto__'' then ''[object Object]''
      else if k = ''constructor'' then ''function Object() { [native code] }''
      else ''function '' @ k @ ''() { [native code] }'')"

text \<open>
  Assignment to an own property: in place when the key exists, appended otherwise. (A
  JavaScript object lists integer-like keys first; the order of members carries no meaning
  in the JSON response and the model keeps insertion order.)
\<close>

fun assign :: "string \<Rightarrow> 'v \<Rightarrow> (string \<times> 'v) list \<Rightarrow> (string \<times> 'v) list" where
  "assign k v [] = [(k, v)]"
| "assign k v ((k', v') # kvs) = (if k' = k then (k, v) # kvs else (k', v') # assign k v kvs)"

text \<open>
  A member of a \<open>status\<close> object is a number, or a string once \<open>+\<close> has concatenated.
  Counts are \<open>int4\<close> values; their sums are taken as exact integers (a double is exact
  below \<open>2^53\<close>).
\<close>

datatype jsval = Num nat | Str string

definition json_of_jsval :: "jsval \<Rightarrow> json" where
  "json_of_jsval v = (case v of Num n \<Rightarrow> JNum n | Str t \<Rightarrow> JStr t)"

text \<open>
  \<open>obj[status] = (obj[status] || 0) + cnt\<close> on a \<open>status\<close> object. An own number is
  added to; a non-empty own string, or an inherited member, is truthy and \<open>+\<close>
  concatenates; the assignment to \<open>__proto__\<close> reaches the inherited setter, which
  ignores a primitive.
\<close>

definition add_status :: "string \<Rightarrow> nat \<Rightarrow> (string \<times> jsval) list \<Rightarrow> (string \<times> jsval) list" where
  "add_status st cnt obj =
     (let v = (case map_of obj st of
                 Some (Num n) \<Rightarrow> Num (n + cnt)
               | Some (Str t) \<Rightarrow> if t = [] then Num cnt else Str (t @ dec cnt)
               | None \<Rightarrow>
                   if st \<in> set object_prototype_names then Str (inherited_text st @ dec cnt)
                   else Num cnt)
      in if st = ''__proto__'' then obj else assign st v obj)"

record source_entry =
  entry_status :: "(string \<times> jsval) list"
  entry_total :: nat

record summary_acc =
  summary :: "(string \<times> source_entry) list"
  total_processed :: nat
  total_analysed :: nat
  total_all :: nat

definition undefined_read_message :: "string \<Rightarrow> string" where
  "undefined_read_message k =
     ''Cannot read properties of undefined (reading '' @ [CHR 0x27] @ k @ [CHR 0x27] @ '')''"

text \<open>
  One pass of the \<open>for (const r of rows)\<close> body; \<open>Inl\<close> is the \<open>TypeError\<close> thrown when
  \<open>summary[src]\<close> is an inherited member, which has no \<open>status\<close>.
\<close>

definition summary_step :: "summary_acc \<Rightarrow> summary_row \<Rightarrow> string + summary_acc" where
  "summary_step a r =
     (let src = js_or_default (row_source r) ''unknown'';
          st = js_or_default (row_status r) ''unknown'';
          cnt = (if row_count r = 0 then 0 else row_count r);
          a1 = a\<lparr>total_all := total_all a + cnt\<rparr>
      in if map_of (summary a1) src = None \<and> src \<in> set object_prototype_names
         then Inl (undefined_read_message st)
         else
           let sm = (if map_of (summary a1) src = None
                     then assign src \<lparr>entry_status = [], entry_total = 0\<rparr> (summary a1)
                     else summary a1);
               e = the (map_of sm src);
               e1 = e\<lparr>entry_status := add_status st cnt (entry_status e)\<rparr>;
               e2 = e1\<lparr>entry_total := entry_total e1 + cnt\<rparr>;
               a2 = a1\<lparr>summary := assign src e2 sm\<rparr>;
               a3 = (if lower st = ''processed''
                     then a2\<lparr>total_processed := total_processed a2 + cnt\<rparr> else a2);
               a4 = (if lower st = ''analysed'' \<or> lower st = ''analyzed''
                     then a3\<lparr>total_analysed := total_analysed a3 + cnt\<rparr> else a3)
           in Inr a4)"

fun summary_loop :: "summary_acc \<Rightarrow> summary_row list \<Rightarrow> string + summary_acc" where
  "summary_loop a [] = Inr a"
| "summary_loop a (r # rs) =
     (case summary_step a r of Inl err \<Rightarrow> Inl err | Inr a' \<Rightarrow> summary_loop a' rs)"

definition empty_summary :: summary_acc where
  "empty_summary = \<lparr>summary = [], total_processed = 0, total_analysed = 0, total_all = 0\<rparr>"

definition getSummary :: "summary_row list \<Rightarrow> string + summary_acc" where
  "getSummary rows = summary_loop empty_summary rows"

definition json_of_entry :: "source_entry \<Rightarrow> json" where
  "json_of_entry e =
     JObj [(''status'', JObj (map (\<lambda>(k, v). (k, json_of_jsval v)) (entry_status e))),
           (''total'', JNum (entry_total e))]"

definition json_of_summary :: "summary_acc \<Rightarrow> (string \<times> json) list" where
  "json_of_summary a =
     [(''sources'', JObj (map (\<lambda>(k, e). (k, json_of_entry e)) (summary a))),
      (''total_processed'', JNum (total_processed a)),
      (''total_analysed'', JNum (total_analysed a)),
      (''total'', JNum (total_all a))]"

definition summary_handler :: "config \<Rightarrow> world \<Rightarrow> server_state \<Rightarrow> string \<Rightarrow> reply" where
  "summary_handler cfg w s projectId =
     (if projectId = [] then (error_response 400 ''project_id is required'', [])
      else if pool cfg = None then (error_response 500 ''DATABASE_URL not configured'', [])
      else
        let q = PoolQuery SelectSummary [Some projectId] in
        case pool_query_error w of
          Some err \<Rightarrow> (error_response 500 err, [q])
        | None \<Rightarrow>
            (case getSummary (select_summary projectId (documents s)) of
               Inl err \<Rightarrow> (error_response 500 err, [q])
             | Inr a \<Rightarrow> (ok_response (json_of_summary a), [q])))"

text \<open>
  What the summary is meant to satisfy, as checks on an accumulator: every member of a
  \<open>status\<close> object is a number, and the entry's total is their sum.
\<close>

fun is_number :: "jsval \<Rightarrow> bool" where
  "is_number (Num n) = True"
| "is_number (Str t) = False"

fun number_of :: "jsval \<Rightarrow> nat" where
  "number_of (Num n) = n"
| "number_of (Str t) = 0"

definition counted :: "source_entry \<Rightarrow> bool" where
  "counted e =
     (list_all (\<lambda>(st, v). is_number v) (entry_status e)
      \<and> entry_total e = sum_list (map (\<lambda>(st, v). number_of v) (entry_status e)))"

definition consistent :: "summary_acc \<Rightarrow> bool" where
  "consistent a =
     (list_all (\<lambda>(src, e). counted e) (summary a)
      \<and> total_all a = sum_list (map (\<lambda>(src, e). entry_total e) (summary a)))"

text \<open>The labels under which a row is bucketed.\<close>

definition source_label :: "summary_row \<Rightarrow> string" where
  "source_label r = js_or_default (row_source r) ''unknown''"

definition status_label :: "summary_row \<Rightarrow> string" where
  "status_label r = js_or_default (row_status r) ''unknown''"

section \<open>Reading an outcome\<close>

abbreviation response_of :: "outcome \<Rightarrow> response" where
  "response_of out \<equiv> fst out"

abbreviation calls_of :: "outcome \<Rightarrow> call list" where
  "calls_of out \<equiv> fst (snd out)"

abbreviation state_of :: "outcome \<Rightarrow> server_state" where
  "state_of out \<equiv> snd (snd out)"

fun is_fb_write :: "call \<Rightarrow> bool" where
  "is_fb_write (FbWrite b p ct buf) = True"
| "is_fb_write _ = False"

fun is_sb_upload :: "call \<Rightarrow> bool" where
  "is_sb_upload (SbUpload b p buf ct u) = True"
| "is_sb_upload _ = False"

fun is_insert :: "call \<Rightarrow> bool" where
  "is_insert (PoolQuery InsertDocument ps) = True"
| "is_insert _ = False"

section \<open>Example inputs\<close>

definition ex_env :: env where
  "ex_env = \<lparr>DATABASE_URL = Some ''postgres://db'', SUPABASE_URL = Some ''https://x.supabase.co/'',
             SUPABASE_BUCKET = Some ''policy'', FIREBASE_STORAGE_BUCKET = Some ''policy-file'',
             FIREBASE_SERVICE_ACCOUNT = None, FIREBASE_SERVICE_ACCOUNT_PATH = None\<rparr>"

definition ex_cfg :: config where
  "ex_cfg = \<lparr>environment = ex_env, supabase = Some SupabaseClient,
             collation_key = map of_char\<rparr>"

text \<open>The same deployment with Firebase credentials present.\<close>

definition ex_cfg_firebase :: config where
  "ex_cfg_firebase =
     ex_cfg\<lparr>environment := ex_env\<lparr>FIREBASE_SERVICE_ACCOUNT_PATH := Some ''./key.json''\<rparr>\<rparr>"

definition ex_world :: world where
  "ex_world = \<lparr>date_now = 5, date_now_sign = 7, uuidv4 = ''u-1'',
               parse_service_account = (\<lambda>_. None),
               require_service_account = (\<lambda>_. Some ''{}''),
               admin_initialize = (\<lambda>_ _. None),
               fb_stream = StreamFinish,
               fb_getSignedUrl = Returned ''https://fb/signed'',
               sb_upload = Returned None,
               sb_createSignedUrl =
                 Returned \<lparr>data = Some (SignedData (Some ''https://sb/signed'')), error = None\<rparr>,
               pool_query_error = None,
               store_clock = ''t0''\<rparr>"

definition ex_state :: server_state where
  "ex_state = \<lparr>firebase = \<lparr>initialized = False, bucket = None\<rparr>, documents = [],
               fb_objects = [], sb_objects = []\<rparr>"

definition ex_file :: upload_file where
  "ex_file = \<lparr>originalname = ''a.pdf'', mimetype = ''application/pdf'', buffer = ''%PDF''\<rparr>"

definition ex_request :: upload_request where
  "ex_request = \<lparr>req_file = Some ex_file, body_project_id = Some ''p1'', body_projectId = None\<rparr>"

text \<open>The write stream reports an error although the Fallback is configured.\<close>

definition ex_world_stream_error :: world where
  "ex_world_stream_error = ex_world\<lparr>fb_stream := StreamError ''quota exceeded''\<rparr>"

text \<open>The database rejects the \<open>INSERT\<close>.\<close>

definition ex_world_insert_rejected :: world where
  "ex_world_insert_rejected = ex_world\<lparr>pool_query_error := Some ''connection refused''\<rparr>"

text \<open>Supabase stores the object but answers the signing request with an error.\<close>

definition ex_world_sign_error :: world where
  "ex_world_sign_error =
     ex_world\<lparr>sb_createSignedUrl := Returned \<lparr>data = None, error = Some ''signing failed''\<rparr>\<rparr>"

definition ex_request_no_project :: upload_request where
  "ex_request_no_project = ex_request\<lparr>body_project_id := None\<rparr>"

text \<open>The project is named in the form field \<open>projectId\<close> instead of \<open>project_id\<close>.\<close>

definition ex_request_camel :: upload_request where
  "ex_request_camel = ex_request\<lparr>body_project_id := None, body_projectId := Some ''p1''\<rparr>"

text \<open>The signing call of Supabase rejects instead of returning an error.\<close>

definition ex_world_sign_throws :: world where
  "ex_world_sign_throws = ex_world\<lparr>sb_createSignedUrl := Threw ''socket hang up''\<rparr>"

definition ex_doc_scraped :: document where
  "ex_doc_scraped =
     \<lparr>doc_id = ''d1'', project_id = ''p1'', filename = Some ''/reports/q1 a.pdf'',
      file_path = Some ''scrapes/1'', source = Some ''Scrape'', status = Some ''processed'',
      document_content = None, created_at = ''t1''\<rparr>"

text \<open>The row that the upload of \<open>ex_request\<close> through the Fallback stores.\<close>

definition ex_doc_uploaded :: document where
  "ex_doc_uploaded =
     \<lparr>doc_id = ''u-1'', project_id = ''p1'', filename = Some ''a.pdf'',
      file_path = Some ''5_a.pdf'', source = Some ''Upload'', status = Some ''pending'',
      document_content = None, created_at = ''t0''\<rparr>"

definition ex_doc_other :: document where
  "ex_doc_other =
     \<lparr>doc_id = ''d3'', project_id = ''p1'', filename = Some ''Zeta.txt'',
      file_path = Some ''z'', source = Some ''OTHER'', status = Some ''Analyzed'',
      document_content = None, created_at = ''t3''\<rparr>"

definition ex_doc_foreign :: document where
  "ex_doc_foreign =
     \<lparr>doc_id = ''d4'', project_id = ''p2'', filename = Some ''b.pdf'',
      file_path = Some ''b'', source = Some ''upload'', status = Some ''pending'',
      document_content = None, created_at = ''t4''\<rparr>"

definition ex_doc_null :: document where
  "ex_doc_null =
     \<lparr>doc_id = ''d5'', project_id = ''p1'', filename = None,
      file_path = None, source = None, status = None,
      document_content = None, created_at = ''t5''\<rparr>"

definition ex_store :: server_state where
  "ex_store = ex_state\<lparr>documents :=
     [ex_doc_uploaded, ex_doc_scraped, ex_doc_other, ex_doc_foreign, ex_doc_null]\<rparr>"

text \<open>A project whose only document carries the status \<open>__proto__\<close>.\<close>

definition ex_doc_proto :: document where
  "ex_doc_proto =
     \<lparr>doc_id = ''d9'', project_id = ''p9'', filename = Some ''c.pdf'',
      file_path = Some ''9_c.pdf'', source = Some ''Upload'', status = Some ''__proto__'',
      document_content = None, created_at = ''t9''\<rparr>"

definition ex_store_proto :: server_state where
  "ex_store_proto = ex_state\<lparr>documents := [ex_doc_proto]\<rparr>"

section \<open>Properties of POST /upload\<close>

lemmas ex_defs = ex_cfg_def ex_cfg_firebase_def ex_env_def ex_world_def ex_state_def ex_file_def
  ex_request_def ex_world_stream_error_def ex_world_insert_rejected_def ex_world_sign_error_def
  ex_request_no_project_def ex_request_camel_def ex_world_sign_throws_def ex_doc_scraped_def
  ex_doc_uploaded_def ex_doc_other_def ex_doc_foreign_def ex_doc_null_def ex_store_def
  ex_doc_proto_def ex_store_proto_def

lemma upload_firebase:
  "req_file req = Some f \<Longrightarrow> getBucket (environment cfg) w (firebase s) = (Inr b, m) \<Longrightarrow>
   upload_handler cfg w s req
     = firebase_branch w (s\<lparr>firebase := m\<rparr>) f (dec (date_now w) @ ''_'' @ originalname f) b"
  by (simp add: upload_handler_def)

lemma upload_fallback:
  "req_file req = Some f \<Longrightarrow> getBucket (environment cfg) w (firebase s) = (Inl e, m) \<Longrightarrow>
   supabase cfg = Some c \<Longrightarrow>
   upload_handler cfg w s req
     = supabase_branch cfg w (s\<lparr>firebase := m\<rparr>) req f (dec (date_now w) @ ''_'' @ originalname f)"
  by (simp add: upload_handler_def)

lemma upload_no_backend:
  "req_file req = Some f \<Longrightarrow> getBucket (environment cfg) w (firebase s) = (Inl e, m) \<Longrightarrow>
   supabase cfg = None \<Longrightarrow>
   upload_handler cfg w s req = (error_response 500 e, [], s\<lparr>firebase := m\<rparr>)"
  by (simp add: upload_handler_def)

lemma upload_missing_file:
  "req_file req = None \<Longrightarrow> upload_handler cfg w s req = (error_response 400 ''No file uploaded'', [], s)"
  by (simp add: upload_handler_def)

lemma firebase_branch_calls:
  "calls_of (firebase_branch w s f dest b) \<noteq> []"
  "is_fb_write (hd (calls_of (firebase_branch w s f dest b)))"
  "length (filter (\<lambda>c. is_fb_write c \<or> is_sb_upload c) (calls_of (firebase_branch w s f dest b))) = 1"
  "\<not> list_ex is_sb_upload (calls_of (firebase_branch w s f dest b))"
  "\<not> list_ex is_insert (calls_of (firebase_branch w s f dest b))"
  "filter is_insert (calls_of (firebase_branch w s f dest b)) = []"
  "documents (state_of (firebase_branch w s f dest b)) = documents s"
  by (auto simp: firebase_branch_def Let_def split: bucket_handle.splits stream_event.splits awaited.splits)

lemma supabase_branch_calls:
  "\<not> list_ex is_fb_write (calls_of (supabase_branch cfg w s req f dest))"
  "length (filter (\<lambda>c. is_fb_write c \<or> is_sb_upload c) (calls_of (supabase_branch cfg w s req f dest))) \<le> 1"
  "length (filter is_insert (calls_of (supabase_branch cfg w s req f dest))) \<le> 1"
  by (auto simp: supabase_branch_def Let_def insert_document_def split: option.splits awaited.splits prod.splits)


lemma supabase_branch_insert:
  "list_ex is_insert (calls_of (supabase_branch cfg w s req f dest)) \<Longrightarrow>
     list_ex is_sb_upload (calls_of (supabase_branch cfg w s req f dest)) \<and>
     sb_upload w = Returned None \<and>
     (\<exists>r. sb_createSignedUrl w = Returned r \<and> error r = None)"
  by (auto simp: supabase_branch_def Let_def insert_document_def split: option.splits awaited.splits prod.splits if_splits)

lemma supabase_branch_documents:
  "documents (state_of (supabase_branch cfg w s req f dest)) = documents s \<or>
   (\<exists>d. documents (state_of (supabase_branch cfg w s req f dest)) = documents s @ [d])"
  by (auto simp: supabase_branch_def Let_def insert_document_def split: option.splits awaited.splits prod.splits if_splits)

lemma supabase_branch_documents_changed:
  "documents (state_of (supabase_branch cfg w s req f dest)) \<noteq> documents s \<Longrightarrow>
   list_ex is_insert (calls_of (supabase_branch cfg w s req f dest))"
  by (auto simp: supabase_branch_def Let_def insert_document_def split: option.splits awaited.splits prod.splits if_splits)

lemma supabase_branch_upload_reached:
  "list_ex is_sb_upload (calls_of (supabase_branch cfg w s req f dest)) \<Longrightarrow>
   truthy (SUPABASE_BUCKET (environment cfg))"
  by (auto simp: supabase_branch_def Let_def insert_document_def split: option.splits awaited.splits prod.splits if_splits)

lemma supabase_branch_first_call:
  "truthy (SUPABASE_BUCKET (environment cfg)) \<Longrightarrow>
   \<exists>rest. calls_of (supabase_branch cfg w s req f dest)
     = SbUpload (the (SUPABASE_BUCKET (environment cfg))) dest (buffer f) (mimetype f) False # rest"
  by (auto simp: supabase_branch_def Let_def insert_document_def split: option.splits awaited.splits prod.splits if_splits)

lemma upload_cases:
  obtains (missing) "req_file req = None"
    | (primary) f b m where "req_file req = Some f" "getBucket (environment cfg) w (firebase s) = (Inr b, m)"
    | (fallback) f e m c where "req_file req = Some f" "getBucket (environment cfg) w (firebase s) = (Inl e, m)"
        "supabase cfg = Some c"
    | (none) f e m where "req_file req = Some f" "getBucket (environment cfg) w (firebase s) = (Inl e, m)"
        "supabase cfg = None"
proof (cases "req_file req")
  case None
  then show ?thesis by (rule missing)
next
  case (Some f)
  obtain r m where g: "getBucket (environment cfg) w (firebase s) = (r, m)"
    by (cases "getBucket (environment cfg) w (firebase s)")
  show ?thesis
  proof (cases r)
    case (Inl e)
    with Some g show ?thesis by (cases "supabase cfg") (auto intro: fallback none)
  next
    case (Inr b)
    with Some g show ?thesis by (auto intro: primary)
  qed
qed

lemma upload_fallback_reached:
  assumes "list_ex is_sb_upload (calls_of (upload_handler cfg w s req))"
  obtains f e m c where "req_file req = Some f"
    "getBucket (environment cfg) w (firebase s) = (Inl e, m)" "supabase cfg = Some c"
    "truthy (SUPABASE_BUCKET (environment cfg))"
proof (cases rule: upload_cases [where req=req and cfg=cfg and w=w and s=s])
  case missing
  with assms show ?thesis by (simp add: upload_missing_file)
next
  case (primary f b m)
  with assms show ?thesis by (simp add: upload_firebase firebase_branch_calls)
next
  case (fallback f e m c)
  with assms have "truthy (SUPABASE_BUCKET (environment cfg))"
    by (simp add: upload_fallback supabase_branch_upload_reached)
  with fallback that show ?thesis by blast
next
  case (none f e m)
  with assms show ?thesis by (simp add: upload_no_backend)
qed

text \<open>
  C6. In every upload request at most one storage backend receives a write: the Primary
  write, when there is one, is the first call; a Fallback write is issued only after
  \<open>getBucket\<close> has failed, and then no Primary write is issued. At most one
  \<open>INSERT\<close> is issued, and only after the Fallback write and the Fallback signing call
  have returned without error; a request that wrote to the Primary issues no \<open>INSERT\<close>
  and leaves the documents table as it was. The table gains at most one row.
\<close>

theorem upload_single_backend_single_insert:
  "length (filter (\<lambda>c. is_fb_write c \<or> is_sb_upload c) (calls_of (upload_handler cfg w s req))) \<le> 1
   \<and> (list_ex is_fb_write (calls_of (upload_handler cfg w s req)) \<longrightarrow>
        is_fb_write (hd (calls_of (upload_handler cfg w s req))))
   \<and> (list_ex is_sb_upload (calls_of (upload_handler cfg w s req)) \<longrightarrow>
        (\<exists>e. fst (getBucket (environment cfg) w (firebase s)) = Inl e)
        \<and> \<not> list_ex is_fb_write (calls_of (upload_handler cfg w s req)))
   \<and> length (filter is_insert (calls_of (upload_handler cfg w s req))) \<le> 1
   \<and> (list_ex is_insert (calls_of (upload_handler cfg w s req)) \<longrightarrow>
        list_ex is_sb_upload (calls_of (upload_handler cfg w s req))
        \<and> sb_upload w = Returned None
        \<and> (\<exists>r. sb_createSignedUrl w = Returned r \<and> error r = None))
   \<and> (list_ex is_fb_write (calls_of (upload_handler cfg w s req)) \<longrightarrow>
        \<not> list_ex is_insert (calls_of (upload_handler cfg w s req))
        \<and> documents (state_of (upload_handler cfg w s req)) = documents s)
   \<and> (documents (state_of (upload_handler cfg w s req)) = documents s
        \<or> (\<exists>d. documents (state_of (upload_handler cfg w s req)) = documents s @ [d]))
   \<and> (documents (state_of (upload_handler cfg w s req)) \<noteq> documents s \<longrightarrow>
        list_ex is_insert (calls_of (upload_handler cfg w s req)))"
proof (cases rule: upload_cases [where req=req and cfg=cfg and w=w and s=s])
  case missing
  then show ?thesis by (simp add: upload_missing_file)
next
  case (primary f b m)
  then show ?thesis by (simp add: upload_firebase firebase_branch_calls)
next
  case (fallback f e m c)
  note h = upload_fallback [OF fallback]
  show ?thesis
    unfolding h
    using supabase_branch_calls [of cfg w "s\<lparr>firebase := m\<rparr>" req f "dec (date_now w) @ ''_'' @ originalname f"]
      supabase_branch_insert [of cfg w "s\<lparr>firebase := m\<rparr>" req f "dec (date_now w) @ ''_'' @ originalname f"]
      supabase_branch_documents [of cfg w "s\<lparr>firebase := m\<rparr>" req f "dec (date_now w) @ ''_'' @ originalname f"]
      supabase_branch_documents_changed [of cfg w "s\<lparr>firebase := m\<rparr>" req f "dec (date_now w) @ ''_'' @ originalname f"]
      fallback
    by auto
next
  case (none f e m)
  then show ?thesis by (simp add: upload_no_backend)
qed


lemmas eval_defs = upload_handler_def getBucket_def initIfPossible_def truthy_def js_or_def
  js_or_default_def supabase_branch_def firebase_branch_def pool_def insert_document_def
  dec.simps digit_char_def ok_response_def error_response_def opt_field_def Let_def

lemma ex_fallback_outcome:
  "upload_handler ex_cfg ex_world ex_state ex_request =
     (ok_response [(''document_id'', JStr ''u-1''), (''message'', JStr ''upload successfully''),
                   (''name'', JStr ''5_a.pdf''), (''url'', JStr ''https://sb/signed'')],
      [SbUpload ''policy'' ''5_a.pdf'' ''%PDF'' ''application/pdf'' False,
       SbCreateSignedUrl ''policy'' ''5_a.pdf'' 3600,
       PoolQuery InsertDocument [Some ''u-1'', Some ''p1'', Some ''a.pdf'', Some ''5_a.pdf'',
                                 Some ''Upload'', Some ''pending'', None]],
      ex_state\<lparr>documents :=
                  [\<lparr>doc_id = ''u-1'', project_id = ''p1'', filename = Some ''a.pdf'',
                    file_path = Some ''5_a.pdf'', source = Some ''Upload'',
                    status = Some ''pending'', document_content = None, created_at = ''t0''\<rparr>],
                sb_objects := [(''policy'', ''5_a.pdf'', ''%PDF'')]\<rparr>)"
  by (simp add: ex_defs eval_defs)

lemma ex_firebase_outcome:
  "upload_handler ex_cfg_firebase ex_world ex_state ex_request =
     (ok_response [(''name'', JStr ''5_a.pdf''), (''url'', JStr ''https://fb/signed'')],
      [FbWrite ''policy-file'' ''5_a.pdf'' ''application/pdf'' ''%PDF'',
       FbGetSignedUrl ''policy-file'' ''5_a.pdf'' 3600007],
      ex_state\<lparr>firebase := \<lparr>initialized = True, bucket = Some (Bucket ''policy-file'')\<rparr>,
                fb_objects := [(''policy-file'', ''5_a.pdf'', ''%PDF'')]\<rparr>)"
  by (simp add: ex_defs eval_defs)

lemma ex_stream_error_outcome:
  "upload_handler ex_cfg_firebase ex_world_stream_error ex_state ex_request =
     (error_response 500 ''quota exceeded'',
      [FbWrite ''policy-file'' ''5_a.pdf'' ''application/pdf'' ''%PDF''],
      ex_state\<lparr>firebase := \<lparr>initialized = True, bucket = Some (Bucket ''policy-file'')\<rparr>\<rparr>)"
  by (simp add: ex_defs eval_defs)

lemma ex_insert_rejected_outcome:
  "upload_handler ex_cfg ex_world_insert_rejected ex_state ex_request =
     (error_response 500 ''connection refused'',
      [SbUpload ''policy'' ''5_a.pdf'' ''%PDF'' ''application/pdf'' False,
       SbCreateSignedUrl ''policy'' ''5_a.pdf'' 3600,
       PoolQuery InsertDocument [Some ''u-1'', Some ''p1'', Some ''a.pdf'', Some ''5_a.pdf'',
                                 Some ''Upload'', Some ''pending'', None]],
      ex_state\<lparr>sb_objects := [(''policy'', ''5_a.pdf'', ''%PDF'')]\<rparr>)"
  by (simp add: ex_defs eval_defs)

lemma ex_sign_error_outcome:
  "upload_handler ex_cfg ex_world_sign_error ex_state ex_request_no_project =
     (error_response 500 ''signing failed'',
      [SbUpload ''policy'' ''5_a.pdf'' ''%PDF'' ''application/pdf'' False,
       SbCreateSignedUrl ''policy'' ''5_a.pdf'' 3600],
      ex_state\<lparr>sb_objects := [(''policy'', ''5_a.pdf'', ''%PDF'')]\<rparr>)"
  by (simp add: ex_defs eval_defs)

lemma ex_no_project_outcome:
  "upload_handler ex_cfg ex_world ex_state ex_request_no_project =
     (error_response 400 ''project_id is required'',
      [SbUpload ''policy'' ''5_a.pdf'' ''%PDF'' ''application/pdf'' False,
       SbCreateSignedUrl ''policy'' ''5_a.pdf'' 3600],
      ex_state\<lparr>sb_objects := [(''policy'', ''5_a.pdf'', ''%PDF'')]\<rparr>)"
  by (simp add: ex_defs eval_defs)

lemma ex_camel_outcome:
  "upload_handler ex_cfg ex_world ex_state ex_request_camel =
     upload_handler ex_cfg ex_world ex_state ex_request"
  by (simp add: ex_defs eval_defs)

theorem upload_single_backend_single_insert_witness:
  "list_ex is_insert (calls_of (upload_handler ex_cfg ex_world ex_state ex_request))
   \<and> list_ex is_sb_upload (calls_of (upload_handler ex_cfg ex_world ex_state ex_request))
   \<and> \<not> list_ex is_fb_write (calls_of (upload_handler ex_cfg ex_world ex_state ex_request))
   \<and> documents (state_of (upload_handler ex_cfg ex_world ex_state ex_request)) \<noteq> documents ex_state
   \<and> sb_upload ex_world = Returned None
   \<and> list_ex is_fb_write (calls_of (upload_handler ex_cfg_firebase ex_world ex_state ex_request))
   \<and> \<not> list_ex is_insert (calls_of (upload_handler ex_cfg_firebase ex_world ex_state ex_request))
   \<and> documents (state_of (upload_handler ex_cfg_firebase ex_world ex_state ex_request)) = documents ex_state"
  using upload_single_backend_single_insert [of ex_cfg ex_world ex_state ex_request]
    upload_single_backend_single_insert [of ex_cfg_firebase ex_world ex_state ex_request]
  by (simp add: ex_fallback_outcome ex_firebase_outcome) (simp add: ex_state_def ex_world_def)


lemma getBucket_unconfigured:
  "\<not> initialized m \<Longrightarrow> bucket m = None \<Longrightarrow> \<not> truthy (FIREBASE_SERVICE_ACCOUNT e) \<Longrightarrow>
   \<not> truthy (FIREBASE_SERVICE_ACCOUNT_PATH e) \<Longrightarrow>
   getBucket e w m = (Inl not_initialized_message, m\<lparr>initialized := False\<rparr>)"
  by (simp add: getBucket_def initIfPossible_def)

lemma firebase_branch_stream_error:
  "fb_stream w = StreamError e \<Longrightarrow>
   response_of (firebase_branch w s f dest b) = error_response 500 e"
  by (simp add: firebase_branch_def split: bucket_handle.splits)

text \<open>
  C1 (as amended). For an upload request with a file: when the Primary client is
  unavailable (\<open>getBucket\<close> throws, which it does in particular when no service account
  is configured and the module is uninitialized) and the Fallback is configured (client and
  \<open>SUPABASE_BUCKET\<close>), the outcome is that of the Fallback branch, which starts with the
  Fallback write of the object key and does not take the Primary error as an input. When
  the Primary bucket was obtained and its write stream reports an error, that error is
  returned to the caller with status 500 and no Fallback write is attempted.
\<close>

theorem primary_failure_routing:
  assumes "req_file req = Some f"
  shows
    "(\<forall>e m. getBucket (environment cfg) w (firebase s) = (Inl e, m) \<and> supabase cfg \<noteq> None
            \<and> truthy (SUPABASE_BUCKET (environment cfg)) \<longrightarrow>
        upload_handler cfg w s req
          = supabase_branch cfg w (s\<lparr>firebase := m\<rparr>) req f (dec (date_now w) @ ''_'' @ originalname f)
        \<and> (\<exists>rest. calls_of (upload_handler cfg w s req)
              = SbUpload (the (SUPABASE_BUCKET (environment cfg)))
                  (dec (date_now w) @ ''_'' @ originalname f) (buffer f) (mimetype f) False # rest))
     \<and> (\<not> initialized (firebase s) \<and> bucket (firebase s) = None
          \<and> \<not> truthy (FIREBASE_SERVICE_ACCOUNT (environment cfg))
          \<and> \<not> truthy (FIREBASE_SERVICE_ACCOUNT_PATH (environment cfg)) \<longrightarrow>
        fst (getBucket (environment cfg) w (firebase s)) = Inl not_initialized_message)
     \<and> (\<forall>b m e. getBucket (environment cfg) w (firebase s) = (Inr b, m)
            \<and> fb_stream w = StreamError e \<longrightarrow>
        response_of (upload_handler cfg w s req) = error_response 500 e
        \<and> \<not> list_ex is_sb_upload (calls_of (upload_handler cfg w s req)))"
proof (intro conjI allI impI)
  fix e m
  assume h: "getBucket (environment cfg) w (firebase s) = (Inl e, m) \<and> supabase cfg \<noteq> None
            \<and> truthy (SUPABASE_BUCKET (environment cfg))"
  then obtain c where c: "supabase cfg = Some c" by auto
  from h c show eq: "upload_handler cfg w s req
          = supabase_branch cfg w (s\<lparr>firebase := m\<rparr>) req f (dec (date_now w) @ ''_'' @ originalname f)"
    using assms by (simp add: upload_fallback)
  from h show "\<exists>rest. calls_of (upload_handler cfg w s req)
              = SbUpload (the (SUPABASE_BUCKET (environment cfg)))
                  (dec (date_now w) @ ''_'' @ originalname f) (buffer f) (mimetype f) False # rest"
    unfolding eq by (simp add: supabase_branch_first_call)
next
  assume "\<not> initialized (firebase s) \<and> bucket (firebase s) = None
          \<and> \<not> truthy (FIREBASE_SERVICE_ACCOUNT (environment cfg))
          \<and> \<not> truthy (FIREBASE_SERVICE_ACCOUNT_PATH (environment cfg))"
  then show "fst (getBucket (environment cfg) w (firebase s)) = Inl not_initialized_message"
    by (simp add: getBucket_unconfigured)
next
  fix b m e
  assume h: "getBucket (environment cfg) w (firebase s) = (Inr b, m) \<and> fb_stream w = StreamError e"
  then show "response_of (upload_handler cfg w s req) = error_response 500 e"
    using assms by (simp add: upload_firebase firebase_branch_stream_error)
  from h show "\<not> list_ex is_sb_upload (calls_of (upload_handler cfg w s req))"
    using assms by (simp add: upload_firebase firebase_branch_calls)
qed

theorem primary_failure_routing_witness:
  "req_file ex_request = Some ex_file
   \<and> fst (getBucket (environment ex_cfg) ex_world (firebase ex_state)) = Inl not_initialized_message
   \<and> supabase ex_cfg \<noteq> None \<and> truthy (SUPABASE_BUCKET (environment ex_cfg))
   \<and> (\<exists>rest. calls_of (upload_handler ex_cfg ex_world ex_state ex_request)
         = SbUpload ''policy'' ''5_a.pdf'' ''%PDF'' ''application/pdf'' False # rest)
   \<and> fst (getBucket (environment ex_cfg_firebase) ex_world_stream_error (firebase ex_state))
        = Inr (Bucket ''policy-file'')
   \<and> fb_stream ex_world_stream_error = StreamError ''quota exceeded''
   \<and> response_of (upload_handler ex_cfg_firebase ex_world_stream_error ex_state ex_request)
        = error_response 500 ''quota exceeded''"
proof -
  have f: "req_file ex_request = Some ex_file" by (simp add: ex_request_def)
  have g1: "getBucket (environment ex_cfg) ex_world (firebase ex_state)
              = (Inl not_initialized_message, \<lparr>initialized = False, bucket = None\<rparr>)"
    by (simp add: ex_defs getBucket_def initIfPossible_def truthy_def)
  have g2: "getBucket (environment ex_cfg_firebase) ex_world_stream_error (firebase ex_state)
              = (Inr (Bucket ''policy-file''), \<lparr>initialized = True, bucket = Some (Bucket ''policy-file'')\<rparr>)"
    by (simp add: ex_defs getBucket_def initIfPossible_def truthy_def js_or_default_def)
  have c: "supabase ex_cfg \<noteq> None \<and> truthy (SUPABASE_BUCKET (environment ex_cfg))"
    by (simp add: ex_defs truthy_def)
  have e: "fb_stream ex_world_stream_error = StreamError ''quota exceeded''"
    by (simp add: ex_defs)
  have d: "dec (date_now ex_world) @ ''_'' @ originalname ex_file = ''5_a.pdf''"
    by (simp add: ex_defs dec.simps digit_char_def)
  have b: "the (SUPABASE_BUCKET (environment ex_cfg)) = ''policy''"
       "buffer ex_file = ''%PDF''" "mimetype ex_file = ''application/pdf''"
    by (simp_all add: ex_defs)
  from primary_failure_routing [OF f, of ex_cfg ex_world ex_state] g1 c
  have "\<exists>rest. calls_of (upload_handler ex_cfg ex_world ex_state ex_request)
         = SbUpload ''policy'' ''5_a.pdf'' ''%PDF'' ''application/pdf'' False # rest"
    unfolding d b by blast
  moreover from primary_failure_routing [OF f, of ex_cfg_firebase ex_world_stream_error ex_state] g2 e
  have "response_of (upload_handler ex_cfg_firebase ex_world_stream_error ex_state ex_request)
        = error_response 500 ''quota exceeded''"
    by blast
  ultimately show ?thesis using f g1 g2 c e by simp
qed

text \<open>
  The claim as stated fails when the Primary write itself fails: with Firebase and Supabase
  both configured, a write-stream error is answered with status 500 carrying the Primary
  error, and the only call issued is the Primary write.
\<close>

theorem primary_write_failure_counterexample:
  "req_file ex_request = Some ex_file
   \<and> supabase ex_cfg_firebase = Some SupabaseClient
   \<and> SUPABASE_BUCKET (environment ex_cfg_firebase) = Some ''policy''
   \<and> fb_stream ex_world_stream_error = StreamError ''quota exceeded''
   \<and> upload_handler ex_cfg_firebase ex_world_stream_error ex_state ex_request
       = (error_response 500 ''quota exceeded'',
          [FbWrite ''policy-file'' ''5_a.pdf'' ''application/pdf'' ''%PDF''],
          ex_state\<lparr>firebase := \<lparr>initialized = True, bucket = Some (Bucket ''policy-file'')\<rparr>\<rparr>)"
  by (simp add: ex_stream_error_outcome) (simp add: ex_defs)

lemma supabase_branch_persisted:
  assumes "truthy (SUPABASE_BUCKET (environment cfg))"
    and "sb_upload w = Returned None"
    and "sb_createSignedUrl w = Returned r" and "error r = None"
    and "data r = Some (SignedData (Some url))"
    and "body_project_id req = Some p" and "p \<noteq> []"
    and "pool cfg \<noteq> None"
    and "pool_query_error w = None"
  shows "supabase_branch cfg w s req f dest =
     (ok_response [(''document_id'', JStr (uuidv4 w)), (''message'', JStr ''upload successfully''),
                   (''name'', JStr dest), (''url'', JStr url)],
      [SbUpload (the (SUPABASE_BUCKET (environment cfg))) dest (buffer f) (mimetype f) False,
       SbCreateSignedUrl (the (SUPABASE_BUCKET (environment cfg))) dest 3600,
       PoolQuery InsertDocument [Some (uuidv4 w), Some p, Some (originalname f), Some dest,
                                 Some ''Upload'', Some ''pending'', None]],
      s\<lparr>sb_objects := sb_objects s @ [(the (SUPABASE_BUCKET (environment cfg)), dest, buffer f)],
        documents := documents s @
          [\<lparr>doc_id = uuidv4 w, project_id = p, filename = Some (originalname f),
            file_path = Some dest, source = Some ''Upload'', status = Some ''pending'',
            document_content = None, created_at = store_clock w\<rparr>]\<rparr>)"
  using assms
  by (simp add: supabase_branch_def Let_def js_or_def truthy_def insert_document_def opt_field_def)

lemma supabase_branch_no_project:
  assumes "truthy (SUPABASE_BUCKET (environment cfg))"
    and "sb_upload w = Returned None"
    and "sb_createSignedUrl w = Returned r" and "error r = None"
    and "\<not> truthy (body_project_id req)" and "\<not> truthy (body_projectId req)"
  shows "supabase_branch cfg w s req f dest =
     (error_response 400 ''project_id is required'',
      [SbUpload (the (SUPABASE_BUCKET (environment cfg))) dest (buffer f) (mimetype f) False,
       SbCreateSignedUrl (the (SUPABASE_BUCKET (environment cfg))) dest 3600],
      s\<lparr>sb_objects := sb_objects s @ [(the (SUPABASE_BUCKET (environment cfg)), dest, buffer f)]\<rparr>)"
  using assms
  by (simp add: supabase_branch_def Let_def js_or_def)

text \<open>
  C2 (as amended). For every upload where the Fallback write was issued and succeeded, the
  Fallback signing call returned a signed URL without error, \<open>project_id\<close> is supplied,
  the relational store is configured and the \<open>INSERT\<close> succeeds: the documents table
  gains exactly one row, with \<open>source = "Upload"\<close>, \<open>status = "pending"\<close>,
  \<open>document_content = null\<close>, \<open>filename\<close> the original name and \<open>file_path\<close> the
  stored key \<open><timestamp>_<originalName>\<close>; exactly one \<open>INSERT\<close> is issued; and the 200
  response carries that row's id as \<open>document_id\<close>, the message \<open>upload successfully\<close>,
  \<open>name\<close> equal to the stored key and the signed \<open>url\<close>.
\<close>

theorem fallback_upload_persists:
  assumes "req_file req = Some f"
    and "list_ex is_sb_upload (calls_of (upload_handler cfg w s req))"
    and "sb_upload w = Returned None"
    and "sb_createSignedUrl w = Returned r" and "error r = None"
    and "data r = Some (SignedData (Some url))"
    and "body_project_id req = Some p" and "p \<noteq> []"
    and "pool cfg \<noteq> None"
    and "pool_query_error w = None"
  shows "documents (state_of (upload_handler cfg w s req)) = documents s @
           [\<lparr>doc_id = uuidv4 w, project_id = p, filename = Some (originalname f),
             file_path = Some (dec (date_now w) @ ''_'' @ originalname f),
             source = Some ''Upload'', status = Some ''pending'',
             document_content = None, created_at = store_clock w\<rparr>]
       \<and> filter is_insert (calls_of (upload_handler cfg w s req)) =
           [PoolQuery InsertDocument
              [Some (uuidv4 w), Some p, Some (originalname f),
               Some (dec (date_now w) @ ''_'' @ originalname f),
               Some ''Upload'', Some ''pending'', None]]
       \<and> response_of (upload_handler cfg w s req) =
           ok_response [(''document_id'', JStr (uuidv4 w)),
                        (''message'', JStr ''upload successfully''),
                        (''name'', JStr (dec (date_now w) @ ''_'' @ originalname f)),
                        (''url'', JStr url)]"
proof -
  from assms(2) obtain f' e m c where r: "req_file req = Some f'"
    "getBucket (environment cfg) w (firebase s) = (Inl e, m)" "supabase cfg = Some c"
    "truthy (SUPABASE_BUCKET (environment cfg))"
    by (rule upload_fallback_reached)
  from r(1) assms(1) have "f' = f" by simp
  with r have eq: "upload_handler cfg w s req
      = supabase_branch cfg w (s\<lparr>firebase := m\<rparr>) req f (dec (date_now w) @ ''_'' @ originalname f)"
    by (simp add: upload_fallback)
  show ?thesis
    unfolding eq supabase_branch_persisted [OF r(4) assms(3-10)]
    by simp
qed

theorem fallback_upload_persists_witness:
  "req_file ex_request = Some ex_file
   \<and> list_ex is_sb_upload (calls_of (upload_handler ex_cfg ex_world ex_state ex_request))
   \<and> sb_upload ex_world = Returned None
   \<and> sb_createSignedUrl ex_world
        = Returned \<lparr>data = Some (SignedData (Some ''https://sb/signed'')), error = None\<rparr>
   \<and> body_project_id ex_request = Some ''p1''
   \<and> pool ex_cfg \<noteq> None \<and> pool_query_error ex_world = None
   \<and> documents (state_of (upload_handler ex_cfg ex_world ex_state ex_request)) =
        [\<lparr>doc_id = ''u-1'', project_id = ''p1'', filename = Some ''a.pdf'',
          file_path = Some ''5_a.pdf'', source = Some ''Upload'', status = Some ''pending'',
          document_content = None, created_at = ''t0''\<rparr>]
   \<and> response_of (upload_handler ex_cfg ex_world ex_state ex_request) =
        ok_response [(''document_id'', JStr ''u-1''), (''message'', JStr ''upload successfully''),
                     (''name'', JStr ''5_a.pdf''), (''url'', JStr ''https://sb/signed'')]"
proof -
  have h1: "req_file ex_request = Some ex_file" by (simp add: ex_defs)
  have h2: "list_ex is_sb_upload (calls_of (upload_handler ex_cfg ex_world ex_state ex_request))"
    by (simp add: ex_fallback_outcome)
  have h3: "sb_upload ex_world = Returned None" by (simp add: ex_defs)
  have h4: "sb_createSignedUrl ex_world
        = Returned \<lparr>data = Some (SignedData (Some ''https://sb/signed'')), error = None\<rparr>"
    by (simp add: ex_defs)
  have h5: "error \<lparr>data = Some (SignedData (Some ''https://sb/signed'')), error = None\<rparr> = None"
    by simp
  have h6: "data \<lparr>data = Some (SignedData (Some ''https://sb/signed'')), error = None\<rparr>
              = Some (SignedData (Some ''https://sb/signed''))"
    by simp
  have h7: "body_project_id ex_request = Some ''p1''" by (simp add: ex_defs)
  have h8: "''p1'' \<noteq> []" by simp
  have h9: "pool ex_cfg \<noteq> None" by (simp add: ex_defs pool_def truthy_def)
  have h10: "pool_query_error ex_world = None" by (simp add: ex_defs)
  have d: "dec (date_now ex_world) = ''5''"
    by (simp add: ex_defs dec.simps digit_char_def)
  have v: "uuidv4 ex_world = ''u-1''" "originalname ex_file = ''a.pdf''" "store_clock ex_world = ''t0''"
    "documents ex_state = []"
    by (simp_all add: ex_defs)
  from fallback_upload_persists [OF h1 h2 h3 h4 h5 h6 h7 h8 h9 h10]
  show ?thesis using h1 h2 h3 h4 h7 h9 h10 by (simp add: d v)
qed

text \<open>
  The claim as stated fails when the store rejects the \<open>INSERT\<close>: the Fallback write and
  signing succeed, \<open>project_id\<close> is supplied and the store is configured, yet the response
  is a 500 with the database error and no row is added.
\<close>

theorem fallback_insert_rejected_counterexample:
  "list_ex is_sb_upload (calls_of (upload_handler ex_cfg ex_world_insert_rejected ex_state ex_request))
   \<and> sb_upload ex_world_insert_rejected = Returned None
   \<and> sb_createSignedUrl ex_world_insert_rejected
        = Returned \<lparr>data = Some (SignedData (Some ''https://sb/signed'')), error = None\<rparr>
   \<and> body_project_id ex_request = Some ''p1''
   \<and> pool ex_cfg = Some (Pool ''postgres://db'')
   \<and> response_of (upload_handler ex_cfg ex_world_insert_rejected ex_state ex_request)
        = error_response 500 ''connection refused''
   \<and> documents (state_of (upload_handler ex_cfg ex_world_insert_rejected ex_state ex_request))
        = documents ex_state"
  by (simp add: ex_insert_rejected_outcome) (simp add: ex_defs pool_def truthy_def)

text \<open>
  C3 (as amended). For every upload where the Fallback write was issued and succeeded, the
  Fallback signing call returned without error, and the request carries neither
  \<open>project_id\<close> nor \<open>projectId\<close>: the response is the 400 validation error; the calls
  issued are exactly the object write followed by the signed-URL request (both before the
  check, and nothing after it: no deletion, no \<open>INSERT\<close>); the object is in the Fallback
  store and the documents table is unchanged.
\<close>

theorem fallback_without_project_id:
  assumes "req_file req = Some f"
    and "list_ex is_sb_upload (calls_of (upload_handler cfg w s req))"
    and "sb_upload w = Returned None"
    and "sb_createSignedUrl w = Returned r" and "error r = None"
    and "\<not> truthy (body_project_id req)" and "\<not> truthy (body_projectId req)"
  shows "response_of (upload_handler cfg w s req) = error_response 400 ''project_id is required''
       \<and> calls_of (upload_handler cfg w s req) =
           [SbUpload (the (SUPABASE_BUCKET (environment cfg)))
              (dec (date_now w) @ ''_'' @ originalname f) (buffer f) (mimetype f) False,
            SbCreateSignedUrl (the (SUPABASE_BUCKET (environment cfg)))
              (dec (date_now w) @ ''_'' @ originalname f) 3600]
       \<and> sb_objects (state_of (upload_handler cfg w s req)) =
           sb_objects s @ [(the (SUPABASE_BUCKET (environment cfg)),
                            dec (date_now w) @ ''_'' @ originalname f, buffer f)]
       \<and> documents (state_of (upload_handler cfg w s req)) = documents s"
proof -
  from assms(2) obtain f' e m c where r: "req_file req = Some f'"
    "getBucket (environment cfg) w (firebase s) = (Inl e, m)" "supabase cfg = Some c"
    "truthy (SUPABASE_BUCKET (environment cfg))"
    by (rule upload_fallback_reached)
  from r(1) assms(1) have "f' = f" by simp
  with r have eq: "upload_handler cfg w s req
      = supabase_branch cfg w (s\<lparr>firebase := m\<rparr>) req f (dec (date_now w) @ ''_'' @ originalname f)"
    by (simp add: upload_fallback)
  show ?thesis
    unfolding eq supabase_branch_no_project [OF r(4) assms(3-7)]
    by simp
qed

theorem fallback_without_project_id_witness:
  "req_file ex_request_no_project = Some ex_file
   \<and> list_ex is_sb_upload (calls_of (upload_handler ex_cfg ex_world ex_state ex_request_no_project))
   \<and> sb_upload ex_world = Returned None
   \<and> sb_createSignedUrl ex_world
        = Returned \<lparr>data = Some (SignedData (Some ''https://sb/signed'')), error = None\<rparr>
   \<and> \<not> truthy (body_project_id ex_request_no_project)
   \<and> \<not> truthy (body_projectId ex_request_no_project)
   \<and> response_of (upload_handler ex_cfg ex_world ex_state ex_request_no_project)
        = error_response 400 ''project_id is required''
   \<and> sb_objects (state_of (upload_handler ex_cfg ex_world ex_state ex_request_no_project))
        = [(''policy'', ''5_a.pdf'', ''%PDF'')]
   \<and> documents (state_of (upload_handler ex_cfg ex_world ex_state ex_request_no_project)) = []"
proof -
  have h1: "req_file ex_request_no_project = Some ex_file" by (simp add: ex_defs)
  have h2: "list_ex is_sb_upload (calls_of (upload_handler ex_cfg ex_world ex_state ex_request_no_project))"
    by (simp add: ex_no_project_outcome)
  have h3: "sb_upload ex_world = Returned None" by (simp add: ex_defs)
  have h4: "sb_createSignedUrl ex_world
        = Returned \<lparr>data = Some (SignedData (Some ''https://sb/signed'')), error = None\<rparr>"
    by (simp add: ex_defs)
  have h5: "error \<lparr>data = Some (SignedData (Some ''https://sb/signed'')), error = None\<rparr> = None"
    by simp
  have h6: "\<not> truthy (body_project_id ex_request_no_project)" by (simp add: ex_defs truthy_def)
  have h7: "\<not> truthy (body_projectId ex_request_no_project)" by (simp add: ex_defs truthy_def)
  have d: "dec (date_now ex_world) = ''5''"
    by (simp add: ex_defs dec.simps digit_char_def)
  have v: "the (SUPABASE_BUCKET (environment ex_cfg)) = ''policy''" "buffer ex_file = ''%PDF''"
    "originalname ex_file = ''a.pdf''"
    "sb_objects ex_state = []" "documents ex_state = []"
    by (simp_all add: ex_defs)
  from fallback_without_project_id [OF h1 h2 h3 h4 h5 h6 h7]
  show ?thesis using h1 h2 h3 h4 h6 h7 by (simp add: d v)
qed

text \<open>
  The claim as stated fails in two ways. When the signing call returns an error the response
  is that error with status 500, not 400, although the write succeeded and \<open>project_id\<close>
  is absent. And a request without \<open>project_id\<close> that carries \<open>projectId\<close> is not
  rejected: the handler accepts either field and answers 200.
\<close>

theorem fallback_without_project_id_counterexample:
  "list_ex is_sb_upload (calls_of (upload_handler ex_cfg ex_world_sign_error ex_state ex_request_no_project))
   \<and> sb_upload ex_world_sign_error = Returned None
   \<and> body_project_id ex_request_no_project = None
   \<and> body_projectId ex_request_no_project = None
   \<and> response_of (upload_handler ex_cfg ex_world_sign_error ex_state ex_request_no_project)
        = error_response 500 ''signing failed''
   \<and> list_ex is_sb_upload (calls_of (upload_handler ex_cfg ex_world ex_state ex_request_camel))
   \<and> sb_upload ex_world = Returned None
   \<and> body_project_id ex_request_camel = None
   \<and> status_code (response_of (upload_handler ex_cfg ex_world ex_state ex_request_camel)) = 200"
  by (simp add: ex_sign_error_outcome ex_camel_outcome ex_fallback_outcome)
     (simp add: ex_defs ok_response_def)

section \<open>Properties of the preview handler and of signing\<close>

lemma hex_digit_inj: "a < 16 \<Longrightarrow> b < 16 \<Longrightarrow> hex_digit a = hex_digit b \<Longrightarrow> a = b"
  apply (simp add: hex_digit_def)
  apply (simp add: numeral_eq_Suc less_Suc_eq)
  apply (elim disjE; simp)
  done

lemma hex_digit_reserved: "\<not> unreserved (CHR ''%'')"
  by (simp add: unreserved_def)

lemma of_char_split:
  assumes "(of_char x :: nat) div 16 = of_char y div 16" and "(of_char x :: nat) mod 16 = of_char y mod 16"
  shows "x = y"
proof -
  have "(of_char x :: nat) = of_char y"
    using assms by (metis div_mult_mod_eq)
  then show ?thesis by simp
qed

lemma percent_encode_cancel:
  assumes "percent_encode x @ r = percent_encode y @ r'"
  shows "x = y \<and> r = r'"
proof (cases "unreserved x")
  case ux: True
  show ?thesis
  proof (cases "unreserved y")
    case True
    with ux assms show ?thesis by (simp add: percent_encode_def)
  next
    case False
    with ux assms have "x = CHR ''%''" by (simp add: percent_encode_def)
    with ux hex_digit_reserved show ?thesis by simp
  qed
next
  case nx: False
  show ?thesis
  proof (cases "unreserved y")
    case True
    with nx assms have "y = CHR ''%''" by (simp add: percent_encode_def)
    with True hex_digit_reserved show ?thesis by simp
  next
    case False
    with nx assms have h: "hex_digit ((of_char x :: nat) div 16) = hex_digit ((of_char y :: nat) div 16)"
      "hex_digit ((of_char x :: nat) mod 16) = hex_digit ((of_char y :: nat) mod 16)" "r = r'"
      by (simp_all add: percent_encode_def)
    have bx: "(of_char x :: nat) < 256" "(of_char y :: nat) < 256"
      by (simp_all add: of_char_def) 
    then have "(of_char x :: nat) div 16 < 16" "(of_char y :: nat) div 16 < 16"
      by (simp_all add: less_mult_imp_div_less)
    with h(1) have d: "(of_char x :: nat) div 16 = of_char y div 16" by (rule_tac hex_digit_inj)
    have "(of_char x :: nat) mod 16 < 16" "(of_char y :: nat) mod 16 < 16" by simp_all
    with h(2) have m: "(of_char x :: nat) mod 16 = of_char y mod 16" by (rule_tac hex_digit_inj)
    from d m h(3) show ?thesis by (simp add: of_char_split)
  qed
qed

lemma percent_encode_nonempty: "percent_encode x \<noteq> []"
  by (simp add: percent_encode_def)

lemma encodeURIComponent_inj: "encodeURIComponent xs = encodeURIComponent ys \<Longrightarrow> xs = ys"
proof (induction xs arbitrary: ys)
  case Nil
  then show ?case
    by (cases ys) (simp_all add: encodeURIComponent_def percent_encode_nonempty)
next
  case (Cons x xs)
  show ?case
  proof (cases ys)
    case Nil
    with Cons.prems show ?thesis by (simp add: encodeURIComponent_def percent_encode_nonempty)
  next
    case (Cons y ys')
    with Cons.prems have "percent_encode x @ encodeURIComponent xs = percent_encode y @ encodeURIComponent ys'"
      by (simp add: encodeURIComponent_def)
    then have "x = y" "encodeURIComponent xs = encodeURIComponent ys'"
      by (auto dest: percent_encode_cancel)
    with Cons.IH Cons show ?thesis by simp
  qed
qed

lemma dec_nonempty: "dec n \<noteq> []"
  by (subst dec.simps) simp

lemma strip_leading_slashes_length: "length (strip_leading_slashes s) \<le> length s"
  by (simp add: strip_leading_slashes_def length_dropWhile_le)

lemma stored_key_differs: "strip_leading_slashes name \<noteq> dec ts @ ''_'' @ name"
proof
  assume "strip_leading_slashes name = dec ts @ ''_'' @ name"
  then have "length (strip_leading_slashes name) = length (dec ts) + 1 + length name" by simp
  with strip_leading_slashes_length [of name] show False by simp
qed


lemma find_None_filter: "find P xs = None \<Longrightarrow> filter P xs = []"
  by (induction xs) (auto split: if_splits)

lemma find_Some_filter: "find P xs = Some d \<Longrightarrow> \<exists>rest. filter P xs = d # rest"
  by (induction xs) (auto split: if_splits)

lemma preview_not_found:
  "i \<noteq> [] \<Longrightarrow> pool cfg \<noteq> None \<Longrightarrow> pool_query_error w = None \<Longrightarrow>
   find (\<lambda>d. doc_id d = i) (documents s) = None \<Longrightarrow>
   preview_handler cfg w s i = (error_response 404 ''document not found'', [PoolQuery SelectById [Some i]])"
  by (auto simp: preview_handler_def select_by_id_def dest!: find_None_filter)

lemma preview_found:
  "i \<noteq> [] \<Longrightarrow> pool cfg \<noteq> None \<Longrightarrow> pool_query_error w = None \<Longrightarrow>
   find (\<lambda>d. doc_id d = i) (documents s) = Some doc \<Longrightarrow>
   preview_handler cfg w s i
     = (fst (preview_of_document cfg w doc), PoolQuery SelectById [Some i] # snd (preview_of_document cfg w doc))"
  by (auto simp: preview_handler_def select_by_id_def split: prod.splits dest!: find_Some_filter)

lemma filename_falsy: "\<not> truthy v \<Longrightarrow> js_or_default v [] = []"
  by (auto simp: truthy_def js_or_default_def split: option.splits)

lemma filename_truthy: "truthy v \<Longrightarrow> js_or_default v [] = the v \<and> the v \<noteq> []"
  by (auto simp: truthy_def js_or_default_def split: option.splits)

text \<open>
  C4 (as amended). For every preview request that reaches the lookup (non-empty id, store
  configured, query answered): an unknown id gives the 404 error; a row whose filename is
  null or empty gives the integrity error (500); otherwise, with \<open>normalized\<close> the
  filename without its leading slashes: if Supabase is configured (client, URL and bucket)
  a signed URL with expiry 3600 is requested for \<open>normalized\<close>, and the response is that
  signed URL, or, when the call returns an error or no URL, the public object URL ending in
  the percent-encoded \<open>normalized\<close>, or, when the call throws, a 500 error
  \<open>Failed to generate preview URL: ...\<close>; else if the Firebase bucket is configured the
  response is the public media URL of \<open>normalized\<close>; else it is the 500 error that no
  storage is configured.
\<close>

theorem preview_url_precedence:
  assumes "i \<noteq> []" and "pool cfg \<noteq> None" and "pool_query_error w = None"
  shows
    "(find (\<lambda>d. doc_id d = i) (documents s) = None \<longrightarrow>
        fst (preview_handler cfg w s i) = error_response 404 ''document not found'')
     \<and> (\<forall>doc. find (\<lambda>d. doc_id d = i) (documents s) = Some doc \<longrightarrow>
          (\<not> truthy (filename doc) \<longrightarrow>
             fst (preview_handler cfg w s i)
               = error_response 500 ''Document filename not found in database'')
        \<and> (truthy (filename doc) \<longrightarrow>
             (let normalized = strip_leading_slashes (the (filename doc));
                  supabaseUrl = SUPABASE_URL (environment cfg);
                  bucketName = SUPABASE_BUCKET (environment cfg);
                  fbBucket = FIREBASE_STORAGE_BUCKET (environment cfg)
              in if supabase cfg \<noteq> None \<and> truthy supabaseUrl \<and> truthy bucketName
                 then snd (preview_handler cfg w s i)
                        = [PoolQuery SelectById [Some i],
                           SbCreateSignedUrl (the bucketName) normalized 3600]
                      \<and> (case sb_createSignedUrl w of
                            Threw m \<Rightarrow>
                              fst (preview_handler cfg w s i)
                                = error_response 500 (''Failed to generate preview URL: '' @ m)
                          | Returned r \<Rightarrow>
                              (case signed_url_of r of
                                 Some u \<Rightarrow>
                                   fst (preview_handler cfg w s i)
                                     = ok_response [(''preview_url'', JStr u)]
                               | None \<Rightarrow>
                                   fst (preview_handler cfg w s i)
                                     = ok_response [(''preview_url'',
                                         JStr (strip_trailing_slash (the supabaseUrl)
                                               @ ''/storage/v1/object/public/'' @ the bucketName
                                               @ ''/'' @ encodeURIComponent normalized))]))
                 else if truthy fbBucket
                 then preview_handler cfg w s i
                        = (ok_response [(''preview_url'',
                             JStr (''https://firebasestorage.googleapis.com/v0/b/'' @ the fbBucket
                                   @ ''/o/'' @ encodeURIComponent normalized @ ''?alt=media''))],
                           [PoolQuery SelectById [Some i]])
                 else preview_handler cfg w s i
                        = (error_response 500 ''Storage not configured for preview URL generation'',
                           [PoolQuery SelectById [Some i]]))))"
proof (intro conjI allI impI)
  assume "find (\<lambda>d. doc_id d = i) (documents s) = None"
  with assms show "fst (preview_handler cfg w s i) = error_response 404 ''document not found''"
    by (simp add: preview_not_found)
next
  fix doc
  assume f: "find (\<lambda>d. doc_id d = i) (documents s) = Some doc"
  note eq = preview_found [OF assms f]
  {
    assume "\<not> truthy (filename doc)"
    then show "fst (preview_handler cfg w s i)
               = error_response 500 ''Document filename not found in database''"
      unfolding eq by (simp add: preview_of_document_def filename_falsy)
  }
  {
    assume t: "truthy (filename doc)"
    show "(let normalized = strip_leading_slashes (the (filename doc));
                  supabaseUrl = SUPABASE_URL (environment cfg);
                  bucketName = SUPABASE_BUCKET (environment cfg);
                  fbBucket = FIREBASE_STORAGE_BUCKET (environment cfg)
              in if supabase cfg \<noteq> None \<and> truthy supabaseUrl \<and> truthy bucketName
                 then snd (preview_handler cfg w s i)
                        = [PoolQuery SelectById [Some i],
                           SbCreateSignedUrl (the bucketName) normalized 3600]
                      \<and> (case sb_createSignedUrl w of
                            Threw m \<Rightarrow>
                              fst (preview_handler cfg w s i)
                                = error_response 500 (''Failed to generate preview URL: '' @ m)
                          | Returned r \<Rightarrow>
                              (case signed_url_of r of
                                 Some u \<Rightarrow>
                                   fst (preview_handler cfg w s i)
                                     = ok_response [(''preview_url'', JStr u)]
                               | None \<Rightarrow>
                                   fst (preview_handler cfg w s i)
                                     = ok_response [(''preview_url'',
                                         JStr (strip_trailing_slash (the supabaseUrl)
                                               @ ''/storage/v1/object/public/'' @ the bucketName
                                               @ ''/'' @ encodeURIComponent normalized))]))
                 else if truthy fbBucket
                 then preview_handler cfg w s i
                        = (ok_response [(''preview_url'',
                             JStr (''https://firebasestorage.googleapis.com/v0/b/'' @ the fbBucket
                                   @ ''/o/'' @ encodeURIComponent normalized @ ''?alt=media''))],
                           [PoolQuery SelectById [Some i]])
                 else preview_handler cfg w s i
                        = (error_response 500 ''Storage not configured for preview URL generation'',
                           [PoolQuery SelectById [Some i]]))"
      unfolding eq
      using filename_truthy [OF t]
      by (simp add: preview_of_document_def Let_def supabase_public_url_def firebase_media_url_def
               split: awaited.splits option.splits)
  }
qed


lemmas preview_eval_defs = preview_handler_def preview_of_document_def select_by_id_def pool_def
  truthy_def js_or_default_def signed_url_of_def strip_leading_slashes_def strip_trailing_slash_def
  supabase_public_url_def firebase_media_url_def encodeURIComponent_def percent_encode_def
  unreserved_def hex_digit_def ok_response_def error_response_def Let_def

lemma ex_preview_signed:
  "preview_handler ex_cfg ex_world ex_store ''d1'' =
     (ok_response [(''preview_url'', JStr ''https://sb/signed'')],
      [PoolQuery SelectById [Some ''d1''], SbCreateSignedUrl ''policy'' ''reports/q1 a.pdf'' 3600])"
  by (simp add: ex_defs preview_eval_defs)

lemma ex_preview_public:
  "preview_handler ex_cfg ex_world_sign_error ex_store ''d1'' =
     (ok_response [(''preview_url'',
        JStr ''https://x.supabase.co/storage/v1/object/public/policy/reports%2Fq1%20a.pdf'')],
      [PoolQuery SelectById [Some ''d1''], SbCreateSignedUrl ''policy'' ''reports/q1 a.pdf'' 3600])"
  by (simp add: ex_defs preview_eval_defs)

lemma ex_preview_throws:
  "preview_handler ex_cfg ex_world_sign_throws ex_store ''d1'' =
     (error_response 500 ''Failed to generate preview URL: socket hang up'',
      [PoolQuery SelectById [Some ''d1''], SbCreateSignedUrl ''policy'' ''reports/q1 a.pdf'' 3600])"
  by (simp add: ex_defs preview_eval_defs)

theorem preview_url_precedence_witness:
  "''d1'' \<noteq> [] \<and> pool ex_cfg \<noteq> None \<and> pool_query_error ex_world_sign_error = None
   \<and> find (\<lambda>d. doc_id d = ''d1'') (documents ex_store) = Some ex_doc_scraped
   \<and> truthy (filename ex_doc_scraped)
   \<and> supabase ex_cfg \<noteq> None \<and> truthy (SUPABASE_URL (environment ex_cfg))
   \<and> truthy (SUPABASE_BUCKET (environment ex_cfg))
   \<and> sb_createSignedUrl ex_world_sign_error
        = Returned \<lparr>data = None, error = Some ''signing failed''\<rparr>
   \<and> snd (preview_handler ex_cfg ex_world_sign_error ex_store ''d1'')
        = [PoolQuery SelectById [Some ''d1''],
           SbCreateSignedUrl ''policy'' ''reports/q1 a.pdf'' 3600]
   \<and> fst (preview_handler ex_cfg ex_world_sign_error ex_store ''d1'')
        = ok_response [(''preview_url'',
            JStr ''https://x.supabase.co/storage/v1/object/public/policy/reports%2Fq1%20a.pdf'')]"
proof -
  have h1: "''d1'' \<noteq> []" by simp
  have h2: "pool ex_cfg \<noteq> None" by (simp add: ex_defs pool_def truthy_def)
  have h3: "pool_query_error ex_world_sign_error = None" by (simp add: ex_defs)
  have f: "find (\<lambda>d. doc_id d = ''d1'') (documents ex_store) = Some ex_doc_scraped"
    by (simp add: ex_defs)
  have t: "truthy (filename ex_doc_scraped)" by (simp add: ex_defs truthy_def)
  have c: "supabase ex_cfg \<noteq> None \<and> truthy (SUPABASE_URL (environment ex_cfg))
             \<and> truthy (SUPABASE_BUCKET (environment ex_cfg))"
    by (simp add: ex_defs truthy_def)
  have g: "sb_createSignedUrl ex_world_sign_error
        = Returned \<lparr>data = None, error = Some ''signing failed''\<rparr>"
    by (simp add: ex_defs)
  have v: "strip_leading_slashes (the (filename ex_doc_scraped)) = ''reports/q1 a.pdf''"
    "the (SUPABASE_BUCKET (environment ex_cfg)) = ''policy''"
    "strip_trailing_slash (the (SUPABASE_URL (environment ex_cfg))) = ''https://x.supabase.co''"
    "encodeURIComponent ''reports/q1 a.pdf'' = ''reports%2Fq1%20a.pdf''"
    "signed_url_of \<lparr>data = None, error = Some ''signing failed''\<rparr> = None"
    by (simp_all add: ex_defs preview_eval_defs)
  from preview_url_precedence [OF h1 h2 h3, of ex_store] f t c g
  have "snd (preview_handler ex_cfg ex_world_sign_error ex_store ''d1'')
        = [PoolQuery SelectById [Some ''d1''],
           SbCreateSignedUrl ''policy'' ''reports/q1 a.pdf'' 3600]
   \<and> fst (preview_handler ex_cfg ex_world_sign_error ex_store ''d1'')
        = ok_response [(''preview_url'',
            JStr ''https://x.supabase.co/storage/v1/object/public/policy/reports%2Fq1%20a.pdf'')]"
    by (simp add: Let_def v)
  with h1 h2 h3 f t c g show ?thesis by simp
qed

text \<open>
  The claim as stated fails when signing fails by throwing: with Supabase configured and the
  row's filename present, a rejected \<open>createSignedUrl\<close> call is answered with status 500,
  not with the public object URL.
\<close>

theorem preview_signing_throws_counterexample:
  "supabase ex_cfg = Some SupabaseClient
   \<and> SUPABASE_URL (environment ex_cfg) = Some ''https://x.supabase.co/''
   \<and> SUPABASE_BUCKET (environment ex_cfg) = Some ''policy''
   \<and> find (\<lambda>d. doc_id d = ''d1'') (documents ex_store) = Some ex_doc_scraped
   \<and> filename ex_doc_scraped = Some ''/reports/q1 a.pdf''
   \<and> sb_createSignedUrl ex_world_sign_throws = Threw ''socket hang up''
   \<and> fst (preview_handler ex_cfg ex_world_sign_throws ex_store ''d1'')
        = error_response 500 ''Failed to generate preview URL: socket hang up''"
  by (simp add: ex_preview_throws) (simp add: ex_defs)

lemma firebase_branch_signing:
  "c \<in> set (calls_of (firebase_branch w s f dest b)) \<Longrightarrow>
   (\<forall>bn p e. c = FbGetSignedUrl bn p e \<longrightarrow> e = date_now_sign w + 3600 * 1000)
   \<and> (\<forall>bn p t. c = SbCreateSignedUrl bn p t \<longrightarrow> t = 3600)"
  by (auto simp: firebase_branch_def Let_def split: bucket_handle.splits stream_event.splits awaited.splits)

lemma supabase_branch_signing:
  "c \<in> set (calls_of (supabase_branch cfg w s req f dest)) \<Longrightarrow>
   (\<forall>bn p e. c = FbGetSignedUrl bn p e \<longrightarrow> e = date_now_sign w + 3600 * 1000)
   \<and> (\<forall>bn p t. c = SbCreateSignedUrl bn p t \<longrightarrow> t = 3600)"
  by (auto simp: supabase_branch_def Let_def insert_document_def
           split: option.splits awaited.splits prod.splits if_splits)

lemma preview_of_document_calls:
  "c \<in> set (snd (preview_of_document cfg w doc)) \<Longrightarrow>
   c = SbCreateSignedUrl (the (SUPABASE_BUCKET (environment cfg)))
         (strip_leading_slashes (js_or_default (filename doc) [])) 3600"
  by (auto simp: preview_of_document_def Let_def split: option.splits awaited.splits if_splits)

lemma preview_handler_calls:
  "c \<in> set (snd (preview_handler cfg w s i)) \<Longrightarrow>
   c = PoolQuery SelectById [Some i] \<or> (\<exists>bn p. c = SbCreateSignedUrl bn p 3600)"
proof -
  assume c: "c \<in> set (snd (preview_handler cfg w s i))"
  show ?thesis
  proof (cases "i \<noteq> [] \<and> pool cfg \<noteq> None \<and> pool_query_error w = None")
    case False
    with c show ?thesis
      by (auto simp: preview_handler_def Let_def split: option.splits if_splits)
  next
    case True
    show ?thesis
    proof (cases "select_by_id i (documents s)")
      case Nil
      with True c show ?thesis by (auto simp: preview_handler_def Let_def)
    next
      case (Cons doc rest)
      with True c have "c = PoolQuery SelectById [Some i] \<or> c \<in> set (snd (preview_of_document cfg w doc))"
        by (auto simp: preview_handler_def Let_def split: prod.splits)
      then show ?thesis by (auto dest: preview_of_document_calls)
    qed
  qed
qed

text \<open>
  C8. Every signing request the upload handler issues asks for one hour: the Primary
  (\<open>getSignedUrl\<close>) with the absolute expiry \<open>Date.now() + 3600 * 1000\<close> milliseconds
  read at the time of the call, the Fallback (\<open>createSignedUrl\<close>) with 3600 seconds. The
  preview handler issues no Primary signing request, and its Fallback signing requests ask
  for 3600 seconds.
\<close>

theorem signed_url_expiry:
  "(\<forall>c \<in> set (calls_of (upload_handler cfg w s req)).
      (\<forall>bn p e. c = FbGetSignedUrl bn p e \<longrightarrow> e = date_now_sign w + 3600 * 1000)
      \<and> (\<forall>bn p t. c = SbCreateSignedUrl bn p t \<longrightarrow> t = 3600))
   \<and> (\<forall>c \<in> set (snd (preview_handler cfg' w' s' i)).
        (\<forall>bn p e. c \<noteq> FbGetSignedUrl bn p e)
        \<and> (\<forall>bn p t. c = SbCreateSignedUrl bn p t \<longrightarrow> t = 3600))"
proof (rule conjI; rule ballI)
  fix c
  assume c: "c \<in> set (calls_of (upload_handler cfg w s req))"
  show "(\<forall>bn p e. c = FbGetSignedUrl bn p e \<longrightarrow> e = date_now_sign w + 3600 * 1000)
      \<and> (\<forall>bn p t. c = SbCreateSignedUrl bn p t \<longrightarrow> t = 3600)"
  proof (cases rule: upload_cases [where req=req and cfg=cfg and w=w and s=s])
    case missing
    with c show ?thesis by (simp add: upload_missing_file)
  next
    case (primary f b m)
    with c have "c \<in> set (calls_of (firebase_branch w (s\<lparr>firebase := m\<rparr>) f
                  (dec (date_now w) @ ''_'' @ originalname f) b))"
      by (simp add: upload_firebase)
    then show ?thesis by (rule firebase_branch_signing)
  next
    case (fallback f e m c')
    with c have "c \<in> set (calls_of (supabase_branch cfg w (s\<lparr>firebase := m\<rparr>) req f
                  (dec (date_now w) @ ''_'' @ originalname f)))"
      by (simp add: upload_fallback)
    then show ?thesis by (rule supabase_branch_signing)
  next
    case (none f e m)
    with c show ?thesis by (simp add: upload_no_backend)
  qed
next
  fix c
  assume "c \<in> set (snd (preview_handler cfg' w' s' i))"
  then have "c = PoolQuery SelectById [Some i] \<or> (\<exists>bn p. c = SbCreateSignedUrl bn p 3600)"
    by (rule preview_handler_calls)
  then show "(\<forall>bn p e. c \<noteq> FbGetSignedUrl bn p e)
        \<and> (\<forall>bn p t. c = SbCreateSignedUrl bn p t \<longrightarrow> t = 3600)"
    by auto
qed

theorem signed_url_expiry_witness:
  "FbGetSignedUrl ''policy-file'' ''5_a.pdf'' 3600007
     \<in> set (calls_of (upload_handler ex_cfg_firebase ex_world ex_state ex_request))
   \<and> 3600007 = date_now_sign ex_world + 3600 * 1000
   \<and> SbCreateSignedUrl ''policy'' ''reports/q1 a.pdf'' 3600
     \<in> set (snd (preview_handler ex_cfg ex_world ex_store ''d1''))"
proof -
  have m1: "FbGetSignedUrl ''policy-file'' ''5_a.pdf'' 3600007
     \<in> set (calls_of (upload_handler ex_cfg_firebase ex_world ex_state ex_request))"
    by (simp add: ex_firebase_outcome)
  have m2: "SbCreateSignedUrl ''policy'' ''reports/q1 a.pdf'' 3600
     \<in> set (snd (preview_handler ex_cfg ex_world ex_store ''d1''))"
    by (simp add: ex_preview_signed)
  from signed_url_expiry [of ex_cfg_firebase ex_world ex_state ex_request ex_cfg ex_world ex_store "''d1''"]
  have "\<forall>c \<in> set (calls_of (upload_handler ex_cfg_firebase ex_world ex_state ex_request)).
      (\<forall>bn p e. c = FbGetSignedUrl bn p e \<longrightarrow> e = date_now_sign ex_world + 3600 * 1000)"
    by blast
  with m1 have "3600007 = date_now_sign ex_world + 3600 * 1000"
    by blast
  with m1 m2 show ?thesis by blast
qed

lemma supabase_branch_new_row:
  "documents (state_of (supabase_branch cfg w s req f dest)) = documents s @ [d] \<Longrightarrow>
   filename d = Some (originalname f) \<and> file_path d = Some dest"
  by (auto simp: supabase_branch_def Let_def insert_document_def
           split: option.splits awaited.splits prod.splits if_splits)

lemma upload_new_row:
  assumes "documents (state_of (upload_handler cfg w s req)) = documents s @ [d]"
  shows "\<exists>f. req_file req = Some f \<and> filename d = Some (originalname f)
            \<and> file_path d = Some (dec (date_now w) @ ''_'' @ originalname f)"
proof (cases rule: upload_cases [where req=req and cfg=cfg and w=w and s=s])
  case missing
  with assms show ?thesis by (simp add: upload_missing_file)
next
  case (primary f b m)
  with assms show ?thesis by (simp add: upload_firebase firebase_branch_calls)
next
  case (fallback f e m c)
  with assms have "documents (state_of (supabase_branch cfg w (s\<lparr>firebase := m\<rparr>) req f
                     (dec (date_now w) @ ''_'' @ originalname f)))
                   = documents (s\<lparr>firebase := m\<rparr>) @ [d]"
    by (simp add: upload_fallback)
  then have "filename d = Some (originalname f)
      \<and> file_path d = Some (dec (date_now w) @ ''_'' @ originalname f)"
    by (rule supabase_branch_new_row)
  with fallback show ?thesis by simp
next
  case (none f e m)
  with assms show ?thesis by (simp add: upload_no_backend)
qed

lemma preview_of_document_file_path:
  "preview_of_document cfg w (d\<lparr>file_path := x\<rparr>) = preview_of_document cfg w d"
  by (simp add: preview_of_document_def)

lemma select_by_id_file_path:
  "select_by_id i (map (\<lambda>x. x\<lparr>file_path := g x\<rparr>) tbl)
     = map (\<lambda>x. x\<lparr>file_path := g x\<rparr>) (select_by_id i tbl)"
  by (simp add: select_by_id_def filter_map comp_def)

lemma preview_handler_file_path:
  "preview_handler cfg w (s\<lparr>documents := map (\<lambda>x. x\<lparr>file_path := g x\<rparr>) (documents s)\<rparr>) i
     = preview_handler cfg w s i"
  by (cases "select_by_id i (documents s)")
     (simp_all add: preview_handler_def Let_def select_by_id_file_path preview_of_document_file_path
        split: option.splits)

lemma preview_of_document_url:
  assumes "filename d = Some name"
    and "fst (preview_of_document cfg w d) = ok_response [(''preview_url'', JStr u)]"
  shows "(\<exists>r. sb_createSignedUrl w = Returned r \<and> signed_url_of r = Some u)
       \<or> u = supabase_public_url (the (SUPABASE_URL (environment cfg)))
               (the (SUPABASE_BUCKET (environment cfg))) (strip_leading_slashes name)
       \<or> u = firebase_media_url (the (FIREBASE_STORAGE_BUCKET (environment cfg)))
               (strip_leading_slashes name)"
  using assms
  by (auto simp: preview_of_document_def Let_def js_or_default_def ok_response_def error_response_def
           split: option.splits awaited.splits if_splits)


text \<open>
  C10. The preview handler never consults \<open>file_path\<close>: rewriting that column in every
  row of the table changes neither its response nor its calls. Consequently, for a row
  \<open>d\<close> that an upload request added (so \<open>file_path = <timestamp>_<filename>\<close>), the
  path the preview handler uses, the filename without leading slashes, differs from the
  stored key, also after percent-encoding: every signing request of the preview names that
  path, and a preview URL that was not returned by the signing call is the public object
  URL or the media URL built from that path.
\<close>

theorem preview_ignores_file_path:
  "preview_handler cfg w (s\<lparr>documents := map (\<lambda>x. x\<lparr>file_path := g x\<rparr>) (documents s)\<rparr>) i
     = preview_handler cfg w s i
   \<and> (documents (state_of (upload_handler cfg0 w0 s0 req)) = documents s0 @ [d]
        \<and> find (\<lambda>x. doc_id x = i) (documents s) = Some d \<longrightarrow>
       (\<exists>key name. file_path d = Some key \<and> filename d = Some name
          \<and> key = dec (date_now w0) @ ''_'' @ name
          \<and> strip_leading_slashes name \<noteq> key
          \<and> encodeURIComponent (strip_leading_slashes name) \<noteq> encodeURIComponent key
          \<and> (\<forall>bn p t. SbCreateSignedUrl bn p t \<in> set (snd (preview_handler cfg w s i)) \<longrightarrow>
                p = strip_leading_slashes name)
          \<and> (\<forall>u. fst (preview_handler cfg w s i) = ok_response [(''preview_url'', JStr u)] \<longrightarrow>
                (\<exists>r. sb_createSignedUrl w = Returned r \<and> signed_url_of r = Some u)
                \<or> u = supabase_public_url (the (SUPABASE_URL (environment cfg)))
                        (the (SUPABASE_BUCKET (environment cfg))) (strip_leading_slashes name)
                \<or> u = firebase_media_url (the (FIREBASE_STORAGE_BUCKET (environment cfg)))
                        (strip_leading_slashes name))))"
proof (intro conjI impI)
  show "preview_handler cfg w (s\<lparr>documents := map (\<lambda>x. x\<lparr>file_path := g x\<rparr>) (documents s)\<rparr>) i
     = preview_handler cfg w s i"
    by (rule preview_handler_file_path)
next
  assume h: "documents (state_of (upload_handler cfg0 w0 s0 req)) = documents s0 @ [d]
        \<and> find (\<lambda>x. doc_id x = i) (documents s) = Some d"
  then have "documents (state_of (upload_handler cfg0 w0 s0 req)) = documents s0 @ [d]"
    by simp
  from upload_new_row [OF this]
  obtain f where f: "filename d = Some (originalname f)"
      "file_path d = Some (dec (date_now w0) @ ''_'' @ originalname f)"
      and "req_file req = Some f"
    by (elim exE conjE)
  let ?name = "originalname f"
  let ?key = "dec (date_now w0) @ ''_'' @ ?name"
  have ne: "strip_leading_slashes ?name \<noteq> ?key" by (rule stored_key_differs)
  then have ne': "encodeURIComponent (strip_leading_slashes ?name) \<noteq> encodeURIComponent ?key"
    by (auto dest: encodeURIComponent_inj)
  from h obtain rest where sel: "select_by_id i (documents s) = d # rest"
    unfolding select_by_id_def by (auto dest: find_Some_filter)
  have calls: "\<forall>bn p t. SbCreateSignedUrl bn p t \<in> set (snd (preview_handler cfg w s i)) \<longrightarrow>
                p = strip_leading_slashes ?name"
  proof (intro allI impI)
    fix bn p t
    assume m: "SbCreateSignedUrl bn p t \<in> set (snd (preview_handler cfg w s i))"
    with sel have "SbCreateSignedUrl bn p t \<in> set (snd (preview_of_document cfg w d))"
      by (auto simp: preview_handler_def Let_def split: option.splits if_splits prod.splits)
    from preview_of_document_calls [OF this] f(1) show "p = strip_leading_slashes ?name"
      by (auto simp: js_or_default_def)
  qed
  have url: "\<forall>u. fst (preview_handler cfg w s i) = ok_response [(''preview_url'', JStr u)] \<longrightarrow>
                (\<exists>r. sb_createSignedUrl w = Returned r \<and> signed_url_of r = Some u)
                \<or> u = supabase_public_url (the (SUPABASE_URL (environment cfg)))
                        (the (SUPABASE_BUCKET (environment cfg))) (strip_leading_slashes ?name)
                \<or> u = firebase_media_url (the (FIREBASE_STORAGE_BUCKET (environment cfg)))
                        (strip_leading_slashes ?name)"
  proof (intro allI impI)
    fix u
    assume r: "fst (preview_handler cfg w s i) = ok_response [(''preview_url'', JStr u)]"
    with sel have "fst (preview_of_document cfg w d) = ok_response [(''preview_url'', JStr u)]"
      by (auto simp: preview_handler_def Let_def ok_response_def error_response_def
               split: option.splits if_splits prod.splits)
    from preview_of_document_url [OF f(1) this]
    show "(\<exists>r. sb_createSignedUrl w = Returned r \<and> signed_url_of r = Some u)
                \<or> u = supabase_public_url (the (SUPABASE_URL (environment cfg)))
                        (the (SUPABASE_BUCKET (environment cfg))) (strip_leading_slashes ?name)
                \<or> u = firebase_media_url (the (FIREBASE_STORAGE_BUCKET (environment cfg)))
                        (strip_leading_slashes ?name)" .
  qed
  from f ne ne' calls url
  show "\<exists>key name. file_path d = Some key \<and> filename d = Some name
          \<and> key = dec (date_now w0) @ ''_'' @ name
          \<and> strip_leading_slashes name \<noteq> key
          \<and> encodeURIComponent (strip_leading_slashes name) \<noteq> encodeURIComponent key
          \<and> (\<forall>bn p t. SbCreateSignedUrl bn p t \<in> set (snd (preview_handler cfg w s i)) \<longrightarrow>
                p = strip_leading_slashes name)
          \<and> (\<forall>u. fst (preview_handler cfg w s i) = ok_response [(''preview_url'', JStr u)] \<longrightarrow>
                (\<exists>r. sb_createSignedUrl w = Returned r \<and> signed_url_of r = Some u)
                \<or> u = supabase_public_url (the (SUPABASE_URL (environment cfg)))
                        (the (SUPABASE_BUCKET (environment cfg))) (strip_leading_slashes name)
                \<or> u = firebase_media_url (the (FIREBASE_STORAGE_BUCKET (environment cfg)))
                        (strip_leading_slashes name))"
    by blast
qed


lemma ex_preview_uploaded:
  "preview_handler ex_cfg ex_world ex_store ''u-1'' =
     (ok_response [(''preview_url'', JStr ''https://sb/signed'')],
      [PoolQuery SelectById [Some ''u-1''], SbCreateSignedUrl ''policy'' ''a.pdf'' 3600])"
  by (simp add: ex_defs preview_eval_defs)

theorem preview_ignores_file_path_witness:
  "documents (state_of (upload_handler ex_cfg ex_world ex_state ex_request))
     = documents ex_state @ [ex_doc_uploaded]
   \<and> find (\<lambda>x. doc_id x = ''u-1'') (documents ex_store) = Some ex_doc_uploaded
   \<and> file_path ex_doc_uploaded = Some ''5_a.pdf''
   \<and> SbCreateSignedUrl ''policy'' ''a.pdf'' 3600
        \<in> set (snd (preview_handler ex_cfg ex_world ex_store ''u-1''))
   \<and> Some ''a.pdf'' \<noteq> file_path ex_doc_uploaded"
proof -
  have h1: "documents (state_of (upload_handler ex_cfg ex_world ex_state ex_request))
     = documents ex_state @ [ex_doc_uploaded]"
    by (simp add: ex_fallback_outcome) (simp add: ex_defs)
  have h2: "find (\<lambda>x. doc_id x = ''u-1'') (documents ex_store) = Some ex_doc_uploaded"
    by (simp add: ex_defs)
  have h3: "file_path ex_doc_uploaded = Some ''5_a.pdf''" by (simp add: ex_defs)
  have h4: "SbCreateSignedUrl ''policy'' ''a.pdf'' 3600
        \<in> set (snd (preview_handler ex_cfg ex_world ex_store ''u-1''))"
    by (simp add: ex_preview_uploaded)
  from preview_ignores_file_path [where cfg=ex_cfg and w=ex_world and s=ex_store and i="''u-1''"
      and ?cfg0.0=ex_cfg and ?w0.0=ex_world and ?s0.0=ex_state and req=ex_request
      and d=ex_doc_uploaded] h1 h2
  have "\<exists>key name. file_path ex_doc_uploaded = Some key
          \<and> strip_leading_slashes name \<noteq> key
          \<and> (\<forall>bn p t. SbCreateSignedUrl bn p t \<in> set (snd (preview_handler ex_cfg ex_world ex_store ''u-1'')) \<longrightarrow>
                p = strip_leading_slashes name)"
    by blast
  then have "\<forall>bn p t. SbCreateSignedUrl bn p t \<in> set (snd (preview_handler ex_cfg ex_world ex_store ''u-1''))
         \<longrightarrow> Some p \<noteq> file_path ex_doc_uploaded"
    by (metis option.inject)
  with h4 have "Some ''a.pdf'' \<noteq> file_path ex_doc_uploaded" by blast
  with h1 h2 h3 h4 show ?thesis by blast
qed

section \<open>Properties of the listing and summary handlers\<close>

lemma source_in_iff:
  "source_in names d \<longleftrightarrow> (\<exists>src. source d = Some src \<and> lower src \<in> set names)"
  by (simp add: source_in_def split: option.splits)

lemma select_upload_or_other_mset:
  "mset (select_upload_or_other cfg pid tbl)
     = filter_mset (\<lambda>d. project_id d = pid
         \<and> (\<exists>src. source d = Some src \<and> (lower src = ''upload'' \<or> lower src = ''other'')))
       (mset tbl)"
  by (simp add: select_upload_or_other_def source_in_iff)

lemma select_scraped_mset:
  "mset (select_scraped cfg pid tbl)
     = filter_mset (\<lambda>d. project_id d = pid \<and> (\<exists>src. source d = Some src \<and> lower src = ''scrape''))
       (mset tbl)"
  by (simp add: select_scraped_def source_in_iff)

lemma select_sorted:
  "sorted (map (filename_key cfg) (select_upload_or_other cfg pid tbl))"
  "sorted (map (filename_key cfg) (select_scraped cfg pid tbl))"
  by (simp_all add: select_upload_or_other_def select_scraped_def)

lemma select_upload_or_other_no_scrape:
  "d \<in> set (select_upload_or_other cfg pid tbl) \<Longrightarrow> source d = Some src \<Longrightarrow> lower src \<noteq> ''scrape''"
  by (auto simp: select_upload_or_other_def source_in_def)

lemma select_scraped_no_upload:
  "d \<in> set (select_scraped cfg pid tbl) \<Longrightarrow> source d = Some src \<Longrightarrow>
   lower src \<noteq> ''upload'' \<and> lower src \<noteq> ''other''"
  by (auto simp: select_scraped_def source_in_def)

lemma select_source_present:
  "d \<in> set (select_upload_or_other cfg pid tbl) \<Longrightarrow> source d \<noteq> None"
  "d \<in> set (select_scraped cfg pid tbl) \<Longrightarrow> source d \<noteq> None"
  by (auto simp: select_upload_or_other_def select_scraped_def source_in_def split: option.splits)

text \<open>
  C7. For every project id (with the store configured and the query answered), the
  upload-or-other listing returns exactly the rows of the project whose source, lower-cased,
  is \<open>upload\<close> or \<open>other\<close>, each as often as the table holds it, and none whose source
  lower-cased is \<open>scrape\<close>; the scraped listing returns exactly (the four projected
  columns of) the rows whose source lower-cased is \<open>scrape\<close>, and none whose source
  lower-cased is \<open>upload\<close> or \<open>other\<close>; both are in ascending order of filename.
\<close>

theorem listings_by_source:
  assumes "pid \<noteq> []" and "pool cfg \<noteq> None" and "pool_query_error w = None"
  shows
    "(\<exists>rows. fst (upload_or_other_handler cfg w s pid)
               = ok_response [(''documents'', JArr (map json_of_document rows))]
        \<and> mset rows = filter_mset (\<lambda>d. project_id d = pid
                         \<and> (\<exists>src. source d = Some src
                               \<and> (lower src = ''upload'' \<or> lower src = ''other'')))
                       (mset (documents s))
        \<and> (\<forall>d \<in> set rows. \<forall>src. source d = Some src \<longrightarrow> lower src \<noteq> ''scrape'')
        \<and> sorted (map (filename_key cfg) rows))
     \<and> (\<exists>rows. fst (scraped_handler cfg w s pid)
               = ok_response [(''documents'', JArr (map scraped_columns rows))]
        \<and> mset rows = filter_mset (\<lambda>d. project_id d = pid
                         \<and> (\<exists>src. source d = Some src \<and> lower src = ''scrape''))
                       (mset (documents s))
        \<and> (\<forall>d \<in> set rows. \<forall>src. source d = Some src \<longrightarrow>
              lower src \<noteq> ''upload'' \<and> lower src \<noteq> ''other'')
        \<and> sorted (map (filename_key cfg) rows))"
proof (rule conjI)
  have "fst (upload_or_other_handler cfg w s pid)
          = ok_response [(''documents'',
              JArr (map json_of_document (select_upload_or_other cfg pid (documents s))))]"
    using assms by (auto simp: upload_or_other_handler_def Let_def)
  then show "\<exists>rows. fst (upload_or_other_handler cfg w s pid)
               = ok_response [(''documents'', JArr (map json_of_document rows))]
        \<and> mset rows = filter_mset (\<lambda>d. project_id d = pid
                         \<and> (\<exists>src. source d = Some src
                               \<and> (lower src = ''upload'' \<or> lower src = ''other'')))
                       (mset (documents s))
        \<and> (\<forall>d \<in> set rows. \<forall>src. source d = Some src \<longrightarrow> lower src \<noteq> ''scrape'')
        \<and> sorted (map (filename_key cfg) rows)"
    using select_upload_or_other_mset [of cfg pid "documents s"] select_sorted(1) [of cfg pid "documents s"]
      select_upload_or_other_no_scrape [of _ cfg pid "documents s"]
    by blast
next
  have "fst (scraped_handler cfg w s pid)
          = ok_response [(''documents'',
              JArr (map scraped_columns (select_scraped cfg pid (documents s))))]"
    using assms by (auto simp: scraped_handler_def Let_def)
  then show "\<exists>rows. fst (scraped_handler cfg w s pid)
               = ok_response [(''documents'', JArr (map scraped_columns rows))]
        \<and> mset rows = filter_mset (\<lambda>d. project_id d = pid
                         \<and> (\<exists>src. source d = Some src \<and> lower src = ''scrape''))
                       (mset (documents s))
        \<and> (\<forall>d \<in> set rows. \<forall>src. source d = Some src \<longrightarrow>
              lower src \<noteq> ''upload'' \<and> lower src \<noteq> ''other'')
        \<and> sorted (map (filename_key cfg) rows)"
    using select_scraped_mset [of cfg pid "documents s"] select_sorted(2) [of cfg pid "documents s"]
      select_scraped_no_upload [of _ cfg pid "documents s"]
    by blast
qed

lemma ex_select_upload_or_other:
  "select_upload_or_other ex_cfg ''p1'' (documents ex_store) = [ex_doc_other, ex_doc_uploaded]"
  by (simp add: ex_defs select_upload_or_other_def source_in_def lower_def lower_char_def filename_key_def)

lemma ex_select_scraped:
  "select_scraped ex_cfg ''p1'' (documents ex_store) = [ex_doc_scraped]"
  by (simp add: ex_defs select_scraped_def source_in_def lower_def lower_char_def filename_key_def)

theorem listings_by_source_witness:
  "''p1'' \<noteq> [] \<and> pool ex_cfg \<noteq> None \<and> pool_query_error ex_world = None
   \<and> fst (upload_or_other_handler ex_cfg ex_world ex_store ''p1'')
        = ok_response [(''documents'', JArr (map json_of_document [ex_doc_other, ex_doc_uploaded]))]
   \<and> fst (scraped_handler ex_cfg ex_world ex_store ''p1'')
        = ok_response [(''documents'', JArr (map scraped_columns [ex_doc_scraped]))]
   \<and> (\<exists>rows. fst (upload_or_other_handler ex_cfg ex_world ex_store ''p1'')
               = ok_response [(''documents'', JArr (map json_of_document rows))]
        \<and> mset rows = filter_mset (\<lambda>d. project_id d = ''p1''
                         \<and> (\<exists>src. source d = Some src
                               \<and> (lower src = ''upload'' \<or> lower src = ''other'')))
                       (mset (documents ex_store))
        \<and> sorted (map (filename_key ex_cfg) rows))
   \<and> (\<exists>rows. fst (scraped_handler ex_cfg ex_world ex_store ''p1'')
               = ok_response [(''documents'', JArr (map scraped_columns rows))]
        \<and> mset rows = filter_mset (\<lambda>d. project_id d = ''p1''
                         \<and> (\<exists>src. source d = Some src \<and> lower src = ''scrape''))
                       (mset (documents ex_store))
        \<and> sorted (map (filename_key ex_cfg) rows))"
proof -
  have h1: "''p1'' \<noteq> []" by simp
  have h2: "pool ex_cfg \<noteq> None" by (simp add: ex_defs pool_def truthy_def)
  have h3: "pool_query_error ex_world = None" by (simp add: ex_defs)
  have e1: "fst (upload_or_other_handler ex_cfg ex_world ex_store ''p1'')
        = ok_response [(''documents'', JArr (map json_of_document [ex_doc_other, ex_doc_uploaded]))]"
    using h2 h3 by (auto simp: upload_or_other_handler_def Let_def ex_select_upload_or_other)
  have e2: "fst (scraped_handler ex_cfg ex_world ex_store ''p1'')
        = ok_response [(''documents'', JArr (map scraped_columns [ex_doc_scraped]))]"
    using h2 h3 by (auto simp: scraped_handler_def Let_def ex_select_scraped)
  from listings_by_source [OF h1 h2 h3, of ex_store] h1 h2 h3 e1 e2
  show ?thesis by blast
qed

lemma map_of_assign: "map_of (assign k v xs) k' = (if k' = k then Some v else map_of xs k')"
  by (induction xs) auto

lemma keys_assign: "fst ` set (assign k v xs) = insert k (fst ` set xs)"
  by (induction xs) force+

lemma set_assign: "set (assign k v xs) \<subseteq> insert (k, v) (set xs)"
  by (induction xs) (auto split: if_splits)

lemma sum_assign:
  fixes f :: "'v \<Rightarrow> nat"
  shows "sum_list (map (\<lambda>(k, v). f v) (assign k v xs))
           + (case map_of xs k of None \<Rightarrow> 0 | Some v0 \<Rightarrow> f v0)
         = sum_list (map (\<lambda>(k, v). f v) xs) + f v"
  by (induction xs) auto

lemma list_all_assign:
  "list_all (\<lambda>(k, v). P v) xs \<Longrightarrow> P v \<Longrightarrow> list_all (\<lambda>(k, v). P v) (assign k v xs)"
  by (induction xs) auto

lemma map_of_list_all:
  "list_all (\<lambda>(k, v). P v) xs \<Longrightarrow> map_of xs k = Some v \<Longrightarrow> P v"
  by (induction xs) (auto split: if_splits)


lemma proto_is_prototype_name: "''__proto__'' \<in> set object_prototype_names"
  by (simp add: object_prototype_names_def)

lemma add_status_plain:
  assumes "st \<notin> set object_prototype_names"
    and "list_all (\<lambda>(k, v). is_number v) obj"
  shows "list_all (\<lambda>(k, v). is_number v) (add_status st cnt obj)
       \<and> sum_list (map (\<lambda>(k, v). number_of v) (add_status st cnt obj))
           = sum_list (map (\<lambda>(k, v). number_of v) obj) + cnt"
proof -
  from assms(1) proto_is_prototype_name have np: "st \<noteq> ''__proto__''" by auto
  show ?thesis
  proof (cases "map_of obj st")
    case None
    with np assms(1) have eq: "add_status st cnt obj = assign st (Num cnt) obj"
      by (simp add: add_status_def)
    from sum_assign [of number_of st "Num cnt" obj] None
    have "sum_list (map (\<lambda>(k, v). number_of v) (assign st (Num cnt) obj))
            = sum_list (map (\<lambda>(k, v). number_of v) obj) + cnt"
      by simp
    with eq assms(2) show ?thesis by (simp add: list_all_assign)
  next
    case (Some v)
    with assms(2) have "is_number v" by (rule map_of_list_all)
    then obtain n where v: "v = Num n" by (cases v) auto
    with Some np have eq: "add_status st cnt obj = assign st (Num (n + cnt)) obj"
      by (simp add: add_status_def)
    from sum_assign [of number_of st "Num (n + cnt)" obj] Some v
    have "sum_list (map (\<lambda>(k, v). number_of v) (assign st (Num (n + cnt)) obj))
            = sum_list (map (\<lambda>(k, v). number_of v) obj) + cnt"
      by simp
    with eq assms(2) show ?thesis by (simp add: list_all_assign)
  qed
qed

lemma counted_add:
  assumes "st \<notin> set object_prototype_names" and "counted e"
  shows "counted (e\<lparr>entry_status := add_status st cnt (entry_status e),
                    entry_total := entry_total e + cnt\<rparr>)"
  using assms add_status_plain [of st "entry_status e" cnt]
  by (simp add: counted_def)

lemma summary_step_plain:
  assumes src: "source_label r \<notin> set object_prototype_names"
    and st: "status_label r \<notin> set object_prototype_names"
    and inv: "consistent a"
  shows "\<exists>a'. summary_step a r = Inr a' \<and> consistent a'
           \<and> total_all a' = total_all a + row_count r
           \<and> total_processed a'
               = total_processed a + (if lower (status_label r) = ''processed'' then row_count r else 0)
           \<and> total_analysed a'
               = total_analysed a
                 + (if lower (status_label r) = ''analysed'' \<or> lower (status_label r) = ''analyzed''
                    then row_count r else 0)
           \<and> fst ` set (summary a') = insert (source_label r) (fst ` set (summary a))"
proof -
  let ?src = "source_label r" and ?st = "status_label r" and ?cnt = "row_count r"
  define sm where "sm = (if map_of (summary a) ?src = None
                     then assign ?src \<lparr>entry_status = [], entry_total = 0\<rparr> (summary a)
                     else summary a)"
  define e where "e = the (map_of sm ?src)"
  define e2 where "e2 = e\<lparr>entry_status := add_status ?st ?cnt (entry_status e),
                           entry_total := entry_total e + ?cnt\<rparr>"
  have fresh: "counted \<lparr>entry_status = [], entry_total = 0\<rparr>" by (simp add: counted_def)
  from inv have all: "list_all (\<lambda>(src, e). counted e) (summary a)"
    and tot: "total_all a = sum_list (map (\<lambda>(src, e). entry_total e) (summary a))"
    by (simp_all add: consistent_def)
  have sm_all: "list_all (\<lambda>(src, e). counted e) sm"
    using all fresh by (simp add: sm_def list_all_assign)
  have sm_e: "map_of sm ?src = Some e"
    by (auto simp: sm_def e_def map_of_assign)
  have sm_sum: "sum_list (map (\<lambda>(src, e). entry_total e) sm) = total_all a"
    using sum_assign [of entry_total ?src "\<lparr>entry_status = [], entry_total = 0\<rparr>" "summary a"] tot
    by (auto simp: sm_def)
  have sm_keys: "fst ` set sm = insert ?src (fst ` set (summary a))"
    by (auto simp: sm_def keys_assign dest: map_of_SomeD intro: rev_image_eqI)
  from sm_all sm_e have "counted e" by (rule map_of_list_all)
  with st have c2: "counted e2" unfolding e2_def by (rule counted_add)
  have new_all: "list_all (\<lambda>(src, e). counted e) (assign ?src e2 sm)"
    using sm_all c2 by (simp add: list_all_assign)
  have new_sum: "sum_list (map (\<lambda>(src, e). entry_total e) (assign ?src e2 sm)) = total_all a + ?cnt"
    using sum_assign [of entry_total ?src e2 sm] sm_e sm_sum by (simp add: e2_def)
  have new_keys: "fst ` set (assign ?src e2 sm) = insert ?src (fst ` set (summary a))"
    by (simp add: keys_assign sm_keys)
  have step: "summary_step a r =
      Inr ((a\<lparr>total_all := total_all a + ?cnt, summary := assign ?src e2 sm\<rparr>)
             \<lparr>total_processed := total_processed a
                  + (if lower ?st = ''processed'' then ?cnt else 0),
              total_analysed := total_analysed a
                  + (if lower ?st = ''analysed'' \<or> lower ?st = ''analyzed'' then ?cnt else 0)\<rparr>)"
    using src
    by (simp add: summary_step_def Let_def sm_def e_def e2_def source_label_def status_label_def)
  show ?thesis
    unfolding step using new_all new_sum new_keys by (simp add: consistent_def)
qed


lemma summary_loop_plain:
  assumes "\<forall>r \<in> set rows. source_label r \<notin> set object_prototype_names
                        \<and> status_label r \<notin> set object_prototype_names"
    and "consistent a"
  shows "\<exists>a'. summary_loop a rows = Inr a' \<and> consistent a'
           \<and> total_all a' = total_all a + sum_list (map row_count rows)
           \<and> total_processed a'
               = total_processed a
                 + sum_list (map row_count (filter (\<lambda>r. lower (status_label r) = ''processed'') rows))
           \<and> total_analysed a'
               = total_analysed a
                 + sum_list (map row_count
                     (filter (\<lambda>r. lower (status_label r) = ''analysed''
                                 \<or> lower (status_label r) = ''analyzed'') rows))
           \<and> fst ` set (summary a') = source_label ` set rows \<union> fst ` set (summary a)"
  using assms
proof (induction rows arbitrary: a)
  case Nil
  then show ?case by simp
next
  case (Cons r rows)
  from Cons.prems have "source_label r \<notin> set object_prototype_names"
    "status_label r \<notin> set object_prototype_names" by simp_all
  from summary_step_plain [OF this Cons.prems(2)]
  obtain a1 where a1: "summary_step a r = Inr a1" "consistent a1"
    "total_all a1 = total_all a + row_count r"
    "total_processed a1
       = total_processed a + (if lower (status_label r) = ''processed'' then row_count r else 0)"
    "total_analysed a1
       = total_analysed a
         + (if lower (status_label r) = ''analysed'' \<or> lower (status_label r) = ''analyzed''
            then row_count r else 0)"
    "fst ` set (summary a1) = insert (source_label r) (fst ` set (summary a))"
    by blast
  from Cons.prems have "\<forall>r \<in> set rows. source_label r \<notin> set object_prototype_names
                        \<and> status_label r \<notin> set object_prototype_names" by simp
  from Cons.IH [OF this a1(2)]
  obtain a' where a': "summary_loop a1 rows = Inr a'" "consistent a'"
    "total_all a' = total_all a1 + sum_list (map row_count rows)"
    "total_processed a'
       = total_processed a1
         + sum_list (map row_count (filter (\<lambda>r. lower (status_label r) = ''processed'') rows))"
    "total_analysed a'
       = total_analysed a1
         + sum_list (map row_count
             (filter (\<lambda>r. lower (status_label r) = ''analysed''
                         \<or> lower (status_label r) = ''analyzed'') rows))"
    "fst ` set (summary a') = source_label ` set rows \<union> fst ` set (summary a1)"
    by blast
  have "summary_loop a (r # rows) = Inr a'" using a1(1) a'(1) by simp
  moreover have "fst ` set (summary a') = source_label ` set (r # rows) \<union> fst ` set (summary a)"
    using a'(6) a1(6) by auto
  ultimately show ?case using a1 a' by simp
qed

lemma consistent_empty: "consistent empty_summary"
  by (simp add: consistent_def empty_summary_def)

text \<open>
  When no label of the rows is a property name of \<open>Object.prototype\<close>, the loop returns
  and its result has the totals the summary is meant to have: the grand total is the sum
  of the counts and the sum of the per-source totals, each per-source total is the sum of
  that source's per-status counts (all of them numbers), the two cross-cutting totals sum
  the rows whose status lower-cased is \<open>processed\<close>, respectively \<open>analysed\<close> or
  \<open>analyzed\<close>, and the sources are the source labels (\<open>unknown\<close> for a null or empty
  one).
\<close>

lemma summary_totals_plain_labels:
  assumes "\<forall>r \<in> set rows. source_label r \<notin> set object_prototype_names
                        \<and> status_label r \<notin> set object_prototype_names"
  shows "\<exists>a. getSummary rows = Inr a
           \<and> total_all a = sum_list (map row_count rows)
           \<and> total_all a = sum_list (map (\<lambda>(src, e). entry_total e) (summary a))
           \<and> (\<forall>(src, e) \<in> set (summary a).
                 list_all (\<lambda>(st, v). is_number v) (entry_status e)
                 \<and> entry_total e = sum_list (map (\<lambda>(st, v). number_of v) (entry_status e)))
           \<and> total_processed a
               = sum_list (map row_count (filter (\<lambda>r. lower (status_label r) = ''processed'') rows))
           \<and> total_analysed a
               = sum_list (map row_count
                   (filter (\<lambda>r. lower (status_label r) = ''analysed''
                               \<or> lower (status_label r) = ''analyzed'') rows))
           \<and> fst ` set (summary a) = source_label ` set rows"
proof -
  from summary_loop_plain [OF assms consistent_empty]
  obtain a where a: "summary_loop empty_summary rows = Inr a" "consistent a"
    "total_all a = total_all empty_summary + sum_list (map row_count rows)"
    "total_processed a
       = total_processed empty_summary
         + sum_list (map row_count (filter (\<lambda>r. lower (status_label r) = ''processed'') rows))"
    "total_analysed a
       = total_analysed empty_summary
         + sum_list (map row_count
             (filter (\<lambda>r. lower (status_label r) = ''analysed''
                         \<or> lower (status_label r) = ''analyzed'') rows))"
    "fst ` set (summary a) = source_label ` set rows \<union> fst ` set (summary empty_summary)"
    by blast
  from a(2) have "\<forall>(src, e) \<in> set (summary a).
                 list_all (\<lambda>(st, v). is_number v) (entry_status e)
                 \<and> entry_total e = sum_list (map (\<lambda>(st, v). number_of v) (entry_status e))"
    by (auto simp: consistent_def counted_def list_all_iff)
  moreover from a(2) have "total_all a = sum_list (map (\<lambda>(src, e). entry_total e) (summary a))"
    by (simp add: consistent_def)
  ultimately show ?thesis
    using a by (simp add: getSummary_def empty_summary_def)
qed

lemma ex_summary_proto_handler:
  "summary_handler ex_cfg ex_world ex_store_proto ''p9'' =
     (ok_response
        [(''sources'', JObj [(''Upload'', JObj [(''status'', JObj []), (''total'', JNum 1)])]),
         (''total_processed'', JNum 0), (''total_analysed'', JNum 0), (''total'', JNum 1)],
      [PoolQuery SelectSummary [Some ''p9'']])"
  by (simp add: ex_defs summary_handler_def select_summary_def pool_def truthy_def
        getSummary_def empty_summary_def summary_step_def js_or_default_def
        object_prototype_names_def add_status_def lower_def lower_char_def Let_def
        json_of_summary_def json_of_entry_def)

text \<open>
  C5 (the code at the failing input). One aggregate row with source \<open>Upload\<close>, status
  \<open>__proto__\<close> and count 1: the summary reports a total of 1 for \<open>Upload\<close> while its
  \<open>status\<close> object stays empty, so the per-source total is not the sum of the per-status
  counts; the handler answers 200 with that summary for a project holding one such
  document.
\<close>

theorem summary_prototype_status:
  "getSummary [\<lparr>row_source = Some ''Upload'', row_status = Some ''__proto__'', row_count = 1\<rparr>]
     = Inr \<lparr>summary = [(''Upload'', \<lparr>entry_status = [], entry_total = 1\<rparr>)],
            total_processed = 0, total_analysed = 0, total_all = 1\<rparr>
   \<and> \<not> counted \<lparr>entry_status = [], entry_total = 1\<rparr>
   \<and> summary_handler ex_cfg ex_world ex_store_proto ''p9'' =
       (ok_response
          [(''sources'', JObj [(''Upload'', JObj [(''status'', JObj []), (''total'', JNum 1)])]),
           (''total_processed'', JNum 0), (''total_analysed'', JNum 0), (''total'', JNum 1)],
        [PoolQuery SelectSummary [Some ''p9'']])"
  by (simp add: ex_summary_proto_handler)
     (simp add: getSummary_def empty_summary_def summary_step_def js_or_default_def
        object_prototype_names_def add_status_def lower_def lower_char_def Let_def counted_def)

section \<open>The missing-file guard\<close>

text \<open>
  C9. An upload request without a file is answered with status 400, and the handler
  issues no storage write, no signed-URL request and no database query; the server state
  (Firebase module, stored objects, documents table) is left as it was.
\<close>

theorem upload_without_file:
  "upload_handler cfg w s (req\<lparr>req_file := None\<rparr>)
     = (error_response 400 ''No file uploaded'', [], s)"
  by (simp add: upload_handler_def)

end
